theory Spec2Isabelle
  imports Main "HOL-Library.AList"
begin

section \<open>Data model (types.ts)\<close>

text \<open>
  The items of the file system are JavaScript objects, and the source reads and writes
  them as such: a children record is a plain object whose keys are the names, so the
  read \<open>children[part]\<close> also finds what the record inherits from its prototype, and
  the write \<open>children['__proto__'] = node\<close> sets the prototype of the record and adds
  no key. An object is therefore its own properties, in insertion order, and its
  prototype, \<open>None\<close> for \<open>Object.prototype\<close>. An own property is typed as the
  interface \<open>FileSystemItem\<close> and the two operations of the store have it: one of the
  six text fields, \<open>size\<close>, \<open>modified\<close> (a \<open>Date\<close>, as a time stamp) or, under any
  name, an object (the children record of a directory, a child of a record, or a node
  that an assignment stored under that name). Strings are lists of code units below 256.
\<close>

datatype 'o property =
    NameField string
  | TypeField string
  | ContentField string
  | PermissionsField string
  | OwnerField string
  | GroupField string
  | SizeField nat
  | ModifiedField nat
  | Member string 'o

datatype jsobject =
  JSObject (properties: "jsobject property list") (prototype: "jsobject option")

text \<open>
  The values that a read returns: \<open>ObjectPrototype\<close> is \<open>Object.prototype\<close> itself and
  \<open>PrototypeFunction k\<close> the function it holds under the key \<open>k\<close> (under
  \<open>constructor\<close>, the function \<open>Object\<close>).
\<close>

datatype jsvalue =
    Undefined
  | Null
  | StringValue string
  | NumberValue nat
  | DateValue nat
  | ObjectPrototype
  | PrototypeFunction string
  | Object jsobject

text \<open>The property names that the source reads with a dot.\<close>

datatype field = Name | Type | Content | Permissions | Owner | Group | Size | Modified | Children

record CommandResult =
  "output" :: string
  error :: "string option"
  exitCode :: int

text \<open>
  What a call can do other than return a \<open>CommandResult\<close>: throw a \<open>TypeError\<close> (a
  method called on a value that has none of that name, or an object that has no
  primitive value), or return an object whose \<open>output\<close> is not a string.
\<close>

datatype failure = TypeError | OutputNotAString

text \<open>The next step of a computation that has not failed.\<close>

definition andThen :: "failure + 'a \<Rightarrow> ('a \<Rightarrow> failure + 'b) \<Rightarrow> failure + 'b" where
  "andThen r f = (case r of Inl e \<Rightarrow> Inl e | Inr x \<Rightarrow> f x)"

section \<open>String and array primitives of the host language\<close>

text \<open>\<open>s.startsWith(p)\<close>.\<close>

definition startsWith :: "string \<Rightarrow> string \<Rightarrow> bool" where
  "startsWith s p = (take (length p) s = p)"

text \<open>\<open>s.split(sep)\<close> for a separator of one character: never empty, \<open>''''\<close> splits
  into \<open>['''']\<close>.\<close>

fun split_on :: "string \<Rightarrow> char \<Rightarrow> string list" where
  "split_on [] sep = [[]]"
| "split_on (c # cs) sep =
     (if c = sep then [] # split_on cs sep
      else (case split_on cs sep of [] \<Rightarrow> [[c]] | w # ws \<Rightarrow> (c # w) # ws))"

text \<open>\<open>parts.join(sep)\<close>.\<close>

fun join :: "string list \<Rightarrow> string \<Rightarrow> string" where
  "join [] sep = []"
| "join [x] sep = x"
| "join (x # y # ys) sep = x @ sep @ join (y # ys) sep"

text \<open>\<open>parts.filter(Boolean)\<close> on strings: the empty string is the only falsy one.\<close>

definition filterBoolean :: "string list \<Rightarrow> string list" where
  "filterBoolean parts = filter (\<lambda>s. s \<noteq> []) parts"

text \<open>\<open>path.replace(/\/$/, '')\<close>: one slash at the very end is removed.\<close>

definition replaceTrailingSlash :: "string \<Rightarrow> string" where
  "replaceTrailingSlash path =
     (if path \<noteq> [] \<and> last path = CHR ''/'' then butlast path else path)"

section \<open>Path resolver (fileSystem.ts, resolvePath)\<close>

text \<open>The loop over the parts of a relative path: \<open>..\<close> pops the stack (\<open>pop\<close> on an
  empty array does nothing), \<open>.\<close> and the empty part are skipped, any other part is
  pushed.\<close>

fun resolveLoop :: "string list \<Rightarrow> string list \<Rightarrow> string list" where
  "resolveLoop resolvedParts [] = resolvedParts"
| "resolveLoop resolvedParts (part # parts) =
     (if part = ''..'' then resolveLoop (butlast resolvedParts) parts
      else if part \<noteq> ''.'' \<and> part \<noteq> '''' then resolveLoop (resolvedParts @ [part]) parts
      else resolveLoop resolvedParts parts)"

definition resolvePath :: "string \<Rightarrow> string \<Rightarrow> string" where
  "resolvePath currentDir path =
     (if startsWith path ''/'' then
        (if path = ''/'' then ''/'' else replaceTrailingSlash path)
      else if path = ''.'' then currentDir
      else if path = ''..'' then
        (let parts = butlast (filterBoolean (split_on currentDir CHR ''/''))
         in if length parts = 0 then ''/'' else ''/'' @ join parts ''/'')
      else
        (let parts = split_on path CHR ''/'';
             resolvedParts =
               resolveLoop
                 (if currentDir = ''/'' then []
                  else filterBoolean (split_on currentDir CHR ''/''))
                 parts
         in if length resolvedParts = 0 then ''/'' else ''/'' @ join resolvedParts ''/''))"

section \<open>Objects of the host language\<close>

subsection \<open>Reading a property\<close>

fun keyOf :: "'o property \<Rightarrow> string" where
  "keyOf (NameField s) = ''name''"
| "keyOf (TypeField s) = ''type''"
| "keyOf (ContentField s) = ''content''"
| "keyOf (PermissionsField s) = ''permissions''"
| "keyOf (OwnerField s) = ''owner''"
| "keyOf (GroupField s) = ''group''"
| "keyOf (SizeField n) = ''size''"
| "keyOf (ModifiedField t) = ''modified''"
| "keyOf (Member k obj) = k"

fun valueOf :: "jsobject property \<Rightarrow> jsvalue" where
  "valueOf (NameField s) = StringValue s"
| "valueOf (TypeField s) = StringValue s"
| "valueOf (ContentField s) = StringValue s"
| "valueOf (PermissionsField s) = StringValue s"
| "valueOf (OwnerField s) = StringValue s"
| "valueOf (GroupField s) = StringValue s"
| "valueOf (SizeField n) = NumberValue n"
| "valueOf (ModifiedField t) = DateValue t"
| "valueOf (Member k obj) = Object obj"

text \<open>The own property of a name, and the property found in the object or along its
  chain of prototype objects.\<close>

definition ownProperty :: "jsobject property list \<Rightarrow> string \<Rightarrow> jsvalue option" where
  "ownProperty ps k = map_option valueOf (find (\<lambda>p. keyOf p = k) ps)"

fun lookupChain :: "jsobject \<Rightarrow> string \<Rightarrow> jsvalue option" where
  "lookupChain (JSObject ps None) k = ownProperty ps k"
| "lookupChain (JSObject ps (Some p)) k =
     (case ownProperty ps k of Some v \<Rightarrow> Some v | None \<Rightarrow> lookupChain p k)"

text \<open>
  Every chain ends in \<open>Object.prototype\<close>, whose standard properties are the functions
  under the keys below and the accessor \<open>__proto__\<close>, which reads and sets the
  prototype of the object it is called on. A function has its key as its \<open>name\<close>, the
  constructor the name \<open>Object\<close>.
\<close>

definition objectPrototypeKeys :: "string list" where
  "objectPrototypeKeys =
     [''constructor'', ''__defineGetter__'', ''__defineSetter__'', ''hasOwnProperty'',
      ''__lookupGetter__'', ''__lookupSetter__'', ''isPrototypeOf'', ''propertyIsEnumerable'',
      ''toString'', ''valueOf'', ''toLocaleString'']"

definition functionName :: "string \<Rightarrow> string" where
  "functionName k = (if k = ''constructor'' then ''Object'' else k)"

text \<open>\<open>obj[k]\<close>.\<close>

definition getProperty :: "jsobject \<Rightarrow> string \<Rightarrow> jsvalue" where
  "getProperty obj k =
     (case lookupChain obj k of
        Some v \<Rightarrow> v
      | None \<Rightarrow>
          if k = ''__proto__'' then
            (case prototype obj of None \<Rightarrow> ObjectPrototype | Some p \<Rightarrow> Object p)
          else if k \<in> set objectPrototypeKeys then PrototypeFunction k
          else Undefined)"

fun fieldKey :: "field \<Rightarrow> string" where
  "fieldKey Name = ''name''"
| "fieldKey Type = ''type''"
| "fieldKey Content = ''content''"
| "fieldKey Permissions = ''permissions''"
| "fieldKey Owner = ''owner''"
| "fieldKey Group = ''group''"
| "fieldKey Size = ''size''"
| "fieldKey Modified = ''modified''"
| "fieldKey Children = ''children''"

text \<open>
  \<open>v.f\<close> for one of the nine names and a value other than \<open>undefined\<close> and \<open>null\<close> (the
  source tests a value before it reads a property of it): a string, a number, a date
  and \<open>Object.prototype\<close> have no property of these names, a function has its \<open>name\<close>.
\<close>

fun get :: "jsvalue \<Rightarrow> field \<Rightarrow> jsvalue" where
  "get (Object obj) f = getProperty obj (fieldKey f)"
| "get (PrototypeFunction k) f = (if f = Name then StringValue (functionName k) else Undefined)"
| "get v f = Undefined"

text \<open>\<open>!v\<close> is \<open>\<not> isTruthy v\<close>.\<close>

fun isTruthy :: "jsvalue \<Rightarrow> bool" where
  "isTruthy Undefined = False"
| "isTruthy Null = False"
| "isTruthy (StringValue s) = (s \<noteq> [])"
| "isTruthy (NumberValue n) = (n \<noteq> 0)"
| "isTruthy v = True"

subsection \<open>Writing a property\<close>

text \<open>
  \<open>obj[k] = v\<close> for an object \<open>v\<close>: an own property of that name is replaced where it
  stands, otherwise the property is added last; the name \<open>__proto__\<close>, unless a data
  property of that name is found, goes to the accessor, which makes \<open>v\<close> the prototype.
\<close>

fun assignOwn :: "string \<Rightarrow> jsobject \<Rightarrow> jsobject property list \<Rightarrow> jsobject property list" where
  "assignOwn k v [] = [Member k v]"
| "assignOwn k v (p # ps) = (if keyOf p = k then Member k v # ps else p # assignOwn k v ps)"

definition setProperty :: "jsobject \<Rightarrow> string \<Rightarrow> jsobject \<Rightarrow> jsobject" where
  "setProperty obj k v =
     (if k = ''__proto__'' \<and> lookupChain obj k = None then JSObject (properties obj) (Some v)
      else JSObject (assignOwn k v (properties obj)) (prototype obj))"

text \<open>
  The source changes an object that it has reached by reads, and the change shows
  wherever that object is read again. No object is stored in two places (every node is
  built once, by the literal of the initial tree or by one of the two operations, and
  stored once), so the change is the update of the tree at the place the reads reached:
  \<open>modifyProperty f obj k\<close> applies \<open>f\<close> to the object that \<open>obj[k]\<close> returns, where
  it stands.
\<close>

fun modifyOwn ::
  "(jsobject \<Rightarrow> jsobject) \<Rightarrow> string \<Rightarrow> jsobject property list \<Rightarrow> jsobject property list" where
  "modifyOwn f k [] = []"
| "modifyOwn f k (p # ps) =
     (if keyOf p = k then (case p of Member k' obj \<Rightarrow> Member k' (f obj) # ps | _ \<Rightarrow> p # ps)
      else p # modifyOwn f k ps)"

fun modifyChain :: "(jsobject \<Rightarrow> jsobject) \<Rightarrow> jsobject \<Rightarrow> string \<Rightarrow> jsobject" where
  "modifyChain f (JSObject ps None) k = JSObject (modifyOwn f k ps) None"
| "modifyChain f (JSObject ps (Some p)) k =
     (case ownProperty ps k of
        Some v \<Rightarrow> JSObject (modifyOwn f k ps) (Some p)
      | None \<Rightarrow> JSObject ps (Some (modifyChain f p k)))"

definition modifyProperty :: "(jsobject \<Rightarrow> jsobject) \<Rightarrow> jsobject \<Rightarrow> string \<Rightarrow> jsobject" where
  "modifyProperty f obj k =
     (case lookupChain obj k of
        Some v \<Rightarrow> modifyChain f obj k
      | None \<Rightarrow>
          if k = ''__proto__'' then
            (case prototype obj of
               None \<Rightarrow> obj
             | Some p \<Rightarrow> JSObject (properties obj) (Some (f p)))
          else obj)"

section \<open>Virtual file system (fileSystem.ts)\<close>

subsection \<open>The initial tree\<close>

text \<open>
  The object literals of a directory and of a file, with the fields in the order of
  the source. \<open>createInitialFileSystem\<close> returns a record with the single key \<open>/\<close>, the
  root directory; the model passes the root object itself where the source passes that
  record, and \<open>fileSystem['/']\<close> is the object. The argument is \<open>new Date()\<close>.
\<close>

definition directoryLiteral ::
  "string \<Rightarrow> string \<Rightarrow> string \<Rightarrow> nat \<Rightarrow> jsobject property list \<Rightarrow> jsobject" where
  "directoryLiteral itemName ownerName groupName modifiedAt children =
     JSObject
       [NameField itemName, TypeField ''directory'', PermissionsField ''drwxr-xr-x'',
        OwnerField ownerName, GroupField groupName, SizeField 4096, ModifiedField modifiedAt,
        Member ''children'' (JSObject children None)]
       None"

definition fileLiteral ::
  "string \<Rightarrow> string \<Rightarrow> string \<Rightarrow> string \<Rightarrow> string \<Rightarrow> nat \<Rightarrow> nat \<Rightarrow> jsobject" where
  "fileLiteral itemName text mode ownerName groupName bytes modifiedAt =
     JSObject
       [NameField itemName, TypeField ''file'', ContentField text, PermissionsField mode,
        OwnerField ownerName, GroupField groupName, SizeField bytes, ModifiedField modifiedAt]
       None"

definition readme_content :: string where
  "readme_content =
     ''Welcome to the Web Terminal!\<newline>\<newline>This is a simulated Linux environment.\<newline>Try commands like: ls, cd, pwd, cat, mkdir, touch, echo\<newline>\<newline>Have fun exploring!''"

definition project_content :: string where
  "project_content =
     ''# My Project\<newline>\<newline>This is a markdown file with project documentation.\<newline>\<newline>## Features\<newline>- Terminal simulation\<newline>- File system operations\<newline>- Command history\<newline>\<newline>## Usage\<newline>Use standard Linux commands to navigate and interact with the file system.''"

definition hello_content :: string where
  "hello_content =
     ''#!/bin/bash\<newline>echo \"Hello, World!\"\<newline>echo \"Welcome to the terminal simulator!\"''"

definition hosts_content :: string where
  "hosts_content =
     ''127.0.0.1'' @ [CHR 0x09] @ ''localhost\<newline>::1'' @ [CHR 0x09, CHR 0x09] @
     ''localhost ip6-localhost ip6-loopback\<newline>''"

definition createInitialFileSystem :: "nat \<Rightarrow> jsobject" where
  "createInitialFileSystem now =
     directoryLiteral ''/'' ''root'' ''root'' now [
       Member ''home'' (directoryLiteral ''home'' ''root'' ''root'' now [
         Member ''user'' (directoryLiteral ''user'' ''user'' ''user'' now [
           Member ''documents'' (directoryLiteral ''documents'' ''user'' ''user'' now [
             Member ''readme.txt''
               (fileLiteral ''readme.txt'' readme_content ''-rw-r--r--'' ''user'' ''user'' 142 now),
             Member ''project.md''
               (fileLiteral ''project.md'' project_content ''-rw-r--r--'' ''user'' ''user'' 203 now)]),
           Member ''scripts'' (directoryLiteral ''scripts'' ''user'' ''user'' now [
             Member ''hello.sh''
               (fileLiteral ''hello.sh'' hello_content ''-rwxr-xr-x'' ''user'' ''user'' 75 now)])])]),
       Member ''etc'' (directoryLiteral ''etc'' ''root'' ''root'' now [
         Member ''hosts''
           (fileLiteral ''hosts'' hosts_content ''-rw-r--r--'' ''root'' ''root'' 67 now)]),
       Member ''var'' (directoryLiteral ''var'' ''root'' ''root'' now [
         Member ''log'' (directoryLiteral ''log'' ''root'' ''root'' now [])])]"

subsection \<open>Lookup\<close>

text \<open>
  The loop of \<open>getItemAtPath\<close>: it returns \<open>null\<close> when \<open>current.children\<close> or
  \<open>current.children[part]\<close> is falsy. A property named \<open>children\<close> is an object or is
  not there, whatever the object.
\<close>

fun walk :: "jsvalue \<Rightarrow> string list \<Rightarrow> jsvalue" where
  "walk current [] = current"
| "walk current (part # parts) =
     (case get current Children of
        Object record \<Rightarrow>
          if isTruthy (getProperty record part) then walk (getProperty record part) parts
          else Null
      | _ \<Rightarrow> Null)"

definition getItemAtPath :: "jsobject \<Rightarrow> string \<Rightarrow> jsvalue" where
  "getItemAtPath fileSystem path =
     (if path = ''/'' then Object fileSystem
      else walk (Object fileSystem) (filterBoolean (split_on path CHR ''/'')))"

subsection \<open>Mutation\<close>

text \<open>
  \<open>createFile\<close> and \<open>createDirectory\<close> assign \<open>parent.children[name]\<close> on the object
  that \<open>getItemAtPath\<close> returned: \<open>modifyItemAtPath\<close> follows the reads of the lookup
  and applies the change to the object they reach.
\<close>

primrec modifyWalk :: "string list \<Rightarrow> (jsobject \<Rightarrow> jsobject) \<Rightarrow> jsobject \<Rightarrow> jsobject" where
  "modifyWalk [] f = f"
| "modifyWalk (part # parts) f =
     (\<lambda>current.
        modifyProperty (\<lambda>record. modifyProperty (modifyWalk parts f) record part)
          current ''children'')"

definition modifyItemAtPath ::
  "(jsobject \<Rightarrow> jsobject) \<Rightarrow> jsobject \<Rightarrow> string \<Rightarrow> jsobject" where
  "modifyItemAtPath f fileSystem path =
     (if path = ''/'' then f fileSystem
      else modifyWalk (filterBoolean (split_on path CHR ''/'')) f fileSystem)"

text \<open>\<open>parent.children[key] = item\<close>.\<close>

definition assignChild :: "string \<Rightarrow> jsobject \<Rightarrow> jsobject \<Rightarrow> jsobject" where
  "assignChild key item parent =
     modifyProperty (\<lambda>record. setProperty record key item) parent ''children''"

text \<open>\<open>s.lastIndexOf(c)\<close>, \<open>-1\<close> when \<open>c\<close> does not occur.\<close>

fun lastIndexOf :: "string \<Rightarrow> char \<Rightarrow> int" where
  "lastIndexOf [] c = -1"
| "lastIndexOf (x # xs) c =
     (let i = lastIndexOf xs c in if 0 \<le> i then i + 1 else if x = c then 0 else -1)"

text \<open>\<open>s.substring(start, stop)\<close>: both indices are clamped to the string and swapped
  when out of order; \<open>s.substring(start)\<close> runs to the end.\<close>

definition substring :: "string \<Rightarrow> int \<Rightarrow> int \<Rightarrow> string" where
  "substring s start stop =
     (let len = int (length s);
          a = max 0 (min start len);
          b = max 0 (min stop len)
      in take (nat (max a b - min a b)) (drop (nat (min a b)) s))"

definition substringFrom :: "string \<Rightarrow> int \<Rightarrow> string" where
  "substringFrom s start = substring s start (int (length s))"

text \<open>The split of a path into \<open>parentPath\<close> and leaf name that both operations start
  with; \<open>|| '/'\<close> replaces the empty string.\<close>

definition parentPathOf :: "string \<Rightarrow> string" where
  "parentPathOf path =
     (let s = substring path 0 (lastIndexOf path CHR ''/'') in if s = [] then ''/'' else s)"

definition leafNameOf :: "string \<Rightarrow> string" where
  "leafNameOf path = substringFrom path (lastIndexOf path CHR ''/'' + 1)"

text \<open>
  The operations return their boolean and the tree after the call; \<open>now\<close> is the
  \<open>new Date()\<close> of the new node. The guard is
  \<open>!parent || parent.type !== 'directory' || !parent.children\<close>.
\<close>

definition createFile :: "jsobject \<Rightarrow> string \<Rightarrow> string \<Rightarrow> nat \<Rightarrow> bool \<times> jsobject" where
  "createFile fileSystem path text now =
     (let parentPath = parentPathOf path;
          fileName = leafNameOf path;
          parent = getItemAtPath fileSystem parentPath
      in if \<not> isTruthy parent \<or> get parent Type \<noteq> StringValue ''directory'' \<or>
            \<not> isTruthy (get parent Children)
         then (False, fileSystem)
         else
           (True,
            modifyItemAtPath
              (assignChild fileName
                 (fileLiteral fileName text ''-rw-r--r--'' ''user'' ''user'' (length text) now))
              fileSystem parentPath))"

definition createDirectory :: "jsobject \<Rightarrow> string \<Rightarrow> nat \<Rightarrow> bool \<times> jsobject" where
  "createDirectory fileSystem path now =
     (let parentPath = parentPathOf path;
          dirName = leafNameOf path;
          parent = getItemAtPath fileSystem parentPath
      in if \<not> isTruthy parent \<or> get parent Type \<noteq> StringValue ''directory'' \<or>
            \<not> isTruthy (get parent Children)
         then (False, fileSystem)
         else
           (True,
            modifyItemAtPath
              (assignChild dirName (directoryLiteral dirName ''user'' ''user'' now []))
              fileSystem parentPath))"

section \<open>More primitives of the host language\<close>

text \<open>\<open>xs.slice(start, stop)\<close> and \<open>xs.slice(start)\<close>: a negative index counts from
  the end, and both are clamped to the array.\<close>

definition slice :: "'a list \<Rightarrow> int \<Rightarrow> int \<Rightarrow> 'a list" where
  "slice xs start stop =
     (let len = int (length xs);
          k = (if start < 0 then max (len + start) 0 else min start len);
          final = (if stop < 0 then max (len + stop) 0 else min stop len)
      in take (nat (final - k)) (drop (nat k) xs))"

definition sliceFrom :: "'a list \<Rightarrow> int \<Rightarrow> 'a list" where
  "sliceFrom xs start = slice xs start (int (length xs))"

text \<open>\<open>args[i]\<close>: \<open>None\<close> is \<open>undefined\<close>.\<close>

definition at_index :: "'a list \<Rightarrow> nat \<Rightarrow> 'a option" where
  "at_index xs i = (if i < length xs then Some (xs ! i) else None)"

text \<open>An optional string is truthy when it is there and not empty; \<open>x || d\<close> is
  \<open>x\<close> when \<open>x\<close> is truthy and \<open>d\<close> otherwise.\<close>

definition truthy :: "string option \<Rightarrow> bool" where
  "truthy x = (case x of None \<Rightarrow> False | Some s \<Rightarrow> s \<noteq> [])"

definition or_else :: "string option \<Rightarrow> string \<Rightarrow> string" where
  "or_else x d = (if truthy x then the x else d)"

text \<open>\<open>s.includes(pattern)\<close>: \<open>pattern\<close> occurs in \<open>s\<close> as a substring.\<close>

fun str_includes :: "string \<Rightarrow> string \<Rightarrow> bool" where
  "str_includes [] pattern = (pattern = [])"
| "str_includes (c # cs) pattern = (startsWith (c # cs) pattern \<or> str_includes cs pattern)"

text \<open>White space as \<open>\s\<close> and \<open>parseInt\<close> read it, among the code units below 256.\<close>

definition isWhiteSpace :: "char \<Rightarrow> bool" where
  "isWhiteSpace c = (c \<in> set [CHR 0x09, CHR 0x0A, CHR 0x0B, CHR 0x0C, CHR 0x0D, CHR 0x20, CHR 0xA0])"

text \<open>The value of a digit in a radix, \<open>None\<close> when the character is not one.\<close>

definition digitValue :: "nat \<Rightarrow> char \<Rightarrow> nat option" where
  "digitValue radix c =
     (let n = (of_char c :: nat);
          v = (if 48 \<le> n \<and> n \<le> 57 then Some (n - 48)
               else if 97 \<le> n \<and> n \<le> 122 then Some (n - 87)
               else if 65 \<le> n \<and> n \<le> 90 then Some (n - 55)
               else None)
      in case v of None \<Rightarrow> None | Some d \<Rightarrow> if d < radix then Some d else None)"

definition numberOf :: "nat \<Rightarrow> string \<Rightarrow> int" where
  "numberOf radix ds =
     foldl (\<lambda>acc c. acc * int radix + int (the (digitValue radix c))) 0 ds"

text \<open>
  \<open>parseInt(s)\<close> with no radix: leading white space is skipped, a sign is read, a
  prefix \<open>0x\<close> or \<open>0X\<close> selects radix 16, and the longest run of digits is the number;
  \<open>None\<close> is \<open>NaN\<close>. The result is the exact integer: the source only passes it
  to \<open>slice\<close>, which clamps it to the length of an array, so the rounding of a number
  beyond \<open>2^53\<close> is not seen.
\<close>

definition parseInt :: "string \<Rightarrow> int option" where
  "parseInt s =
     (let s1 = dropWhile isWhiteSpace s;
          negative = startsWith s1 ''-'';
          s2 = (if startsWith s1 ''-'' \<or> startsWith s1 ''+'' then drop 1 s1 else s1);
          hex = (startsWith s2 ''0x'' \<or> startsWith s2 ''0X'');
          radix = (if hex then 16 else 10);
          s3 = (if hex then drop 2 s2 else s2);
          ds = takeWhile (\<lambda>c. digitValue radix c \<noteq> None) s3
      in if ds = [] then None
         else Some (if negative then - numberOf radix ds else numberOf radix ds))"

text \<open>\<open>n.toString()\<close> of a non-negative integer, and \<open>s.padStart(n)\<close>.\<close>

fun toString :: "nat \<Rightarrow> string" where
  "toString n =
     (if n < 10 then [char_of (48 + n)] else toString (n div 10) @ [char_of (48 + n mod 10)])"

definition padStart :: "string \<Rightarrow> nat \<Rightarrow> string" where
  "padStart s n = replicate (n - length s) CHR '' '' @ s"

text \<open>\<open>s.toLowerCase()\<close> on code units below 256.\<close>

definition toLowerCase :: "string \<Rightarrow> string" where
  "toLowerCase s =
     map (\<lambda>c. let n = (of_char c :: nat)
              in if (65 \<le> n \<and> n \<le> 90) \<or> (192 \<le> n \<and> n \<le> 222 \<and> n \<noteq> 215)
                 then char_of (n + 32) else c) s"

text \<open>\<open>s.split(/\s+/)\<close>: the pieces between the runs of white space.\<close>

function splitWhiteSpace :: "string \<Rightarrow> string list" where
  "splitWhiteSpace [] = [[]]"
| "splitWhiteSpace (c # cs) =
     (if isWhiteSpace c then [] # splitWhiteSpace (dropWhile isWhiteSpace cs)
      else (case splitWhiteSpace cs of [] \<Rightarrow> [[c]] | w # ws \<Rightarrow> (c # w) # ws))"
  by pat_completeness auto
termination
  by (relation "measure length") (auto simp: length_dropWhile_le less_Suc_eq_le)

text \<open>
  \<open>Object.values(children)\<close>: the keys that are array indices (canonical decimal
  numerals below \<open>2^32 - 1\<close>) come first, in ascending order, then the other keys in
  insertion order.
\<close>

definition isArrayIndex :: "string \<Rightarrow> bool" where
  "isArrayIndex s =
     (s \<noteq> [] \<and> list_all (\<lambda>c. digitValue 10 c \<noteq> None) s \<and> (s = ''0'' \<or> hd s \<noteq> CHR ''0'') \<and>
      numberOf 10 s < 4294967295)"

definition objectValues :: "(string \<times> 'a) list \<Rightarrow> 'a list" where
  "objectValues cs =
     map snd
       (sort_key (\<lambda>kv. numberOf 10 (fst kv)) (filter (\<lambda>kv. isArrayIndex (fst kv)) cs) @
        filter (\<lambda>kv. \<not> isArrayIndex (fst kv)) cs)"

section \<open>Command dispatcher (commands.ts)\<close>

text \<open>
  What a call reads from outside its arguments is a parameter of the model: the clock
  (\<open>new Date()\<close>), the two renderings of a \<open>Date\<close> that \<open>ls\<close> and \<open>date\<close> print, the
  text that the host gives for a native function, and the ten custom command handlers,
  which draw on \<open>Math.random\<close>, on the evaluation of a \<open>Function\<close> and on art outside
  ASCII. The source hands these handlers the arguments only, never the file system.
  One command reads the clock once.
\<close>

record Env =
  newDate :: nat
  dateToString :: "nat \<Rightarrow> string"
  toLocaleDateString :: "nat \<Rightarrow> string"
  functionToString :: "string \<Rightarrow> string"
  handleHello :: "string list \<Rightarrow> CommandResult"
  handleCalc :: "string list \<Rightarrow> CommandResult"
  handleWeather :: "string list \<Rightarrow> CommandResult"
  handleJoke :: CommandResult
  handleCowsay :: "string list \<Rightarrow> CommandResult"
  handleFortune :: CommandResult
  handleMatrix :: CommandResult
  handleAscii :: "string list \<Rightarrow> CommandResult"
  handleColor :: "string list \<Rightarrow> CommandResult"
  handleTimer :: "string list \<Rightarrow> CommandResult"

subsection \<open>Values as strings\<close>

text \<open>
  \<open>v.toString()\<close>: an object answers with the \<open>toString\<close> it inherits from
  \<open>Object.prototype\<close>, unless a property of that name hides it, which is an object and
  cannot be called.
\<close>

fun callToString :: "Env \<Rightarrow> jsvalue \<Rightarrow> failure + string" where
  "callToString env Undefined = Inl TypeError"
| "callToString env Null = Inl TypeError"
| "callToString env (StringValue s) = Inr s"
| "callToString env (NumberValue n) = Inr (toString n)"
| "callToString env (DateValue t) = Inr (dateToString env t)"
| "callToString env ObjectPrototype = Inr ''[object Object]''"
| "callToString env (PrototypeFunction k) = Inr (functionToString env k)"
| "callToString env (Object obj) =
     (if getProperty obj ''toString'' = PrototypeFunction ''toString'' then Inr ''[object Object]''
      else Inl TypeError)"

text \<open>
  The conversion of a value to a string in a template literal: for an object it calls
  \<open>toString\<close> and, where that cannot be called, \<open>valueOf\<close>, which gives no primitive
  value.
\<close>

fun toStringJS :: "Env \<Rightarrow> jsvalue \<Rightarrow> failure + string" where
  "toStringJS env Undefined = Inr ''undefined''"
| "toStringJS env Null = Inr ''null''"
| "toStringJS env v = callToString env v"

text \<open>\<open>values.join(sep)\<close>: \<open>undefined\<close> and \<open>null\<close> are joined as the empty string.\<close>

fun stringsOf :: "Env \<Rightarrow> jsvalue list \<Rightarrow> failure + string list" where
  "stringsOf env [] = Inr []"
| "stringsOf env (v # vs) =
     (case (if v = Undefined \<or> v = Null then Inr '''' else toStringJS env v) of
        Inl e \<Rightarrow> Inl e
      | Inr s \<Rightarrow> (case stringsOf env vs of Inl e \<Rightarrow> Inl e | Inr ss \<Rightarrow> Inr (s # ss)))"

definition joinValues :: "Env \<Rightarrow> jsvalue list \<Rightarrow> string \<Rightarrow> failure + string" where
  "joinValues env vs sep =
     (case stringsOf env vs of Inl e \<Rightarrow> Inl e | Inr ss \<Rightarrow> Inr (join ss sep))"

text \<open>A result with this output and exit code 0.\<close>

definition success :: "string \<Rightarrow> CommandResult" where
  "success out = \<lparr>output = out, error = None, exitCode = 0\<rparr>"

subsection \<open>ls\<close>

text \<open>In the messages, \<open>CHR 0x27\<close> is the single quote.
  The line of the long format calls \<open>item.modified.toLocaleDateString\<close>, which only a
  \<open>Date\<close> has, and \<open>item.size.toString()\<close>.\<close>

definition longFormatLine :: "Env \<Rightarrow> jsvalue \<Rightarrow> failure + string" where
  "longFormatLine env item =
     (case get item Modified of
        DateValue t \<Rightarrow>
          andThen (toStringJS env (get item Permissions)) (\<lambda>permissions.
          andThen (toStringJS env (get item Owner)) (\<lambda>owner.
          andThen (toStringJS env (get item Group)) (\<lambda>groupName.
          andThen (callToString env (get item Size)) (\<lambda>sizeText.
          andThen (toStringJS env (get item Name)) (\<lambda>itemName.
            Inr (permissions @ '' 1 '' @ owner @ '' '' @ groupName @ '' '' @
                 padStart sizeText 8 @ '' '' @ toLocaleDateString env t @ '' '' @ itemName))))))
      | _ \<Rightarrow> Inl TypeError)"

fun longFormatLines :: "Env \<Rightarrow> jsvalue list \<Rightarrow> failure + string list" where
  "longFormatLines env [] = Inr []"
| "longFormatLines env (item # items) =
     (case longFormatLine env item of
        Inl e \<Rightarrow> Inl e
      | Inr line \<Rightarrow>
          (case longFormatLines env items of Inl e \<Rightarrow> Inl e | Inr ls \<Rightarrow> Inr (line # ls)))"

text \<open>\<open>items.filter(item => !item.name.startsWith('.'))\<close>: only a string has the method.\<close>

fun withoutDotNames :: "jsvalue list \<Rightarrow> failure + jsvalue list" where
  "withoutDotNames [] = Inr []"
| "withoutDotNames (item # items) =
     (case get item Name of
        StringValue s \<Rightarrow>
          (case withoutDotNames items of
             Inl e \<Rightarrow> Inl e
           | Inr rest \<Rightarrow> Inr (if \<not> startsWith s ''.'' then item # rest else rest))
      | _ \<Rightarrow> Inl TypeError)"

text \<open>\<open>Object.values(record)\<close>, over the own properties of the object.\<close>

definition valuesOf :: "jsobject \<Rightarrow> jsvalue list" where
  "valuesOf record = objectValues (map (\<lambda>p. (keyOf p, valueOf p)) (properties record))"

definition dotEntry :: "string \<Rightarrow> nat \<Rightarrow> jsvalue" where
  "dotEntry itemName now =
     Object (JSObject
       [NameField itemName, TypeField ''directory'', PermissionsField ''drwxr-xr-x'',
        OwnerField ''user'', GroupField ''user'', SizeField 4096, ModifiedField now] None)"

definition handleLs :: "Env \<Rightarrow> string list \<Rightarrow> string \<Rightarrow> jsobject \<Rightarrow> failure + CommandResult" where
  "handleLs env args currentDir fileSystem =
     (let showAll = (''-a'' \<in> set args \<or> ''-la'' \<in> set args \<or> ''-al'' \<in> set args);
          longFormat = (''-l'' \<in> set args \<or> ''-la'' \<in> set args \<or> ''-al'' \<in> set args);
          targetPath = or_else (find (\<lambda>arg. \<not> startsWith arg ''-'') args) currentDir;
          resolvedPath = resolvePath currentDir targetPath;
          item = getItemAtPath fileSystem resolvedPath
      in if \<not> isTruthy item then
           Inr \<lparr>output = '''',
                error = Some (''ls: cannot access '' @ [CHR 0x27] @ targetPath @ [CHR 0x27] @
                              '': No such file or directory''),
                exitCode = 2\<rparr>
         else if get item Type = StringValue ''file'' then
           (if longFormat then
              (case longFormatLine env item of Inl e \<Rightarrow> Inl e | Inr line \<Rightarrow> Inr (success line))
            else
              (case get item Name of
                 StringValue s \<Rightarrow> Inr (success s)
               | _ \<Rightarrow> Inl OutputNotAString))
         else
           (case get item Children of
              Object record \<Rightarrow>
                (case (if \<not> showAll then withoutDotNames (valuesOf record)
                       else Inr (valuesOf record)) of
                   Inl e \<Rightarrow> Inl e
                 | Inr items1 \<Rightarrow>
                     (let items2 = (if showAll \<and> resolvedPath \<noteq> ''/'' then
                                      [dotEntry ''.'' (newDate env), dotEntry ''..'' (newDate env)] @
                                      items1
                                    else items1)
                      in if longFormat then
                           (case longFormatLines env items2 of
                              Inl e \<Rightarrow> Inl e
                            | Inr ls \<Rightarrow> Inr (success (join ls ''\<newline>'')))
                         else
                           (case joinValues env (map (\<lambda>item. get item Name) items2) ''  '' of
                              Inl e \<Rightarrow> Inl e
                            | Inr out \<Rightarrow> Inr (success out))))
            | _ \<Rightarrow> Inr (success '''')))"

subsection \<open>cd\<close>

definition handleCd :: "string list \<Rightarrow> string \<Rightarrow> jsobject \<Rightarrow> CommandResult" where
  "handleCd args currentDir fileSystem =
     (let targetPath = or_else (at_index args 0) ''/home/user'';
          resolvedPath = resolvePath currentDir targetPath;
          item = getItemAtPath fileSystem resolvedPath
      in if \<not> isTruthy item then
           \<lparr>output = '''',
            error = Some (''bash: cd: '' @ targetPath @ '': No such file or directory''),
            exitCode = 1\<rparr>
         else if get item Type \<noteq> StringValue ''directory'' then
           \<lparr>output = '''',
            error = Some (''bash: cd: '' @ targetPath @ '': Not a directory''),
            exitCode = 1\<rparr>
         else \<lparr>output = ''__CD__'' @ resolvedPath, error = None, exitCode = 0\<rparr>)"

subsection \<open>cat\<close>

text \<open>\<open>item.content || ''\<close>, as a value.\<close>

definition contentOrEmpty :: "jsvalue \<Rightarrow> jsvalue" where
  "contentOrEmpty item =
     (if isTruthy (get item Content) then get item Content else StringValue '''')"

fun catLoop ::
  "Env \<Rightarrow> string list \<Rightarrow> string \<Rightarrow> jsobject \<Rightarrow> jsvalue list \<Rightarrow> failure + CommandResult" where
  "catLoop env [] currentDir fileSystem results =
     (case joinValues env results ''\<newline>'' of
        Inl e \<Rightarrow> Inl e
      | Inr out \<Rightarrow> Inr (success out))"
| "catLoop env (filePath # rest) currentDir fileSystem results =
     (let item = getItemAtPath fileSystem (resolvePath currentDir filePath)
      in if \<not> isTruthy item then
           Inr \<lparr>output = '''',
                error = Some (''cat: '' @ filePath @ '': No such file or directory''),
                exitCode = 1\<rparr>
         else if get item Type \<noteq> StringValue ''file'' then
           Inr \<lparr>output = '''', error = Some (''cat: '' @ filePath @ '': Is a directory''),
                exitCode = 1\<rparr>
         else catLoop env rest currentDir fileSystem (results @ [contentOrEmpty item]))"

definition handleCat :: "Env \<Rightarrow> string list \<Rightarrow> string \<Rightarrow> jsobject \<Rightarrow> failure + CommandResult" where
  "handleCat env args currentDir fileSystem =
     (if length args = 0 then
        Inr \<lparr>output = '''', error = Some ''cat: missing file operand'', exitCode = 1\<rparr>
      else catLoop env args currentDir fileSystem [])"

subsection \<open>mkdir and touch\<close>

text \<open>The two commands that change the tree: the result comes with the tree after the
  call.\<close>

fun mkdirLoop ::
  "string list \<Rightarrow> string \<Rightarrow> jsobject \<Rightarrow> nat \<Rightarrow> CommandResult \<times> jsobject" where
  "mkdirLoop [] currentDir fileSystem now =
     (\<lparr>output = '''', error = None, exitCode = 0\<rparr>, fileSystem)"
| "mkdirLoop (dirPath # rest) currentDir fileSystem now =
     (let resolvedPath = resolvePath currentDir dirPath;
          created = createDirectory fileSystem resolvedPath now
      in if \<not> fst created then
           (\<lparr>output = '''',
             error = Some (''mkdir: cannot create directory '' @ [CHR 0x27] @ dirPath @ [CHR 0x27] @
                           '': File exists or parent directory doesn't exist''),
             exitCode = 1\<rparr>, snd created)
         else mkdirLoop rest currentDir (snd created) now)"

definition handleMkdir ::
  "string list \<Rightarrow> string \<Rightarrow> jsobject \<Rightarrow> nat \<Rightarrow> CommandResult \<times> jsobject" where
  "handleMkdir args currentDir fileSystem now =
     (if length args = 0 then
        (\<lparr>output = '''', error = Some ''mkdir: missing operand'', exitCode = 1\<rparr>, fileSystem)
      else mkdirLoop args currentDir fileSystem now)"

fun touchLoop ::
  "string list \<Rightarrow> string \<Rightarrow> jsobject \<Rightarrow> nat \<Rightarrow> CommandResult \<times> jsobject" where
  "touchLoop [] currentDir fileSystem now =
     (\<lparr>output = '''', error = None, exitCode = 0\<rparr>, fileSystem)"
| "touchLoop (filePath # rest) currentDir fileSystem now =
     (let resolvedPath = resolvePath currentDir filePath;
          created = createFile fileSystem resolvedPath '''' now
      in if \<not> fst created then
           (\<lparr>output = '''',
             error = Some (''touch: cannot touch '' @ [CHR 0x27] @ filePath @ [CHR 0x27] @
                           '': No such file or directory''),
             exitCode = 1\<rparr>, snd created)
         else touchLoop rest currentDir (snd created) now)"

definition handleTouch ::
  "string list \<Rightarrow> string \<Rightarrow> jsobject \<Rightarrow> nat \<Rightarrow> CommandResult \<times> jsobject" where
  "handleTouch args currentDir fileSystem now =
     (if length args = 0 then
        (\<lparr>output = '''', error = Some ''touch: missing file operand'', exitCode = 1\<rparr>, fileSystem)
      else touchLoop args currentDir fileSystem now)"

subsection \<open>help, uname, which\<close>

definition helpText :: string where
  "helpText =
     ''Available commands:\<newline>'' @
     ''\<newline>'' @
     ''BASIC COMMANDS:\<newline>'' @
     ''ls [-l] [-a] [path]    - List directory contents\<newline>'' @
     ''cd [path]              - Change directory\<newline>'' @
     ''pwd                    - Print working directory\<newline>'' @
     ''cat <file>             - Display file contents\<newline>'' @
     ''echo <text>            - Display text\<newline>'' @
     ''mkdir <dir>            - Create directory\<newline>'' @
     ''touch <file>           - Create empty file\<newline>'' @
     ''whoami                 - Display current user\<newline>'' @
     ''date                   - Display current date and time\<newline>'' @
     ''clear                  - Clear terminal screen\<newline>'' @
     ''\<newline>'' @
     ''FILE OPERATIONS:\<newline>'' @
     ''file <path>            - Determine file type\<newline>'' @
     ''head [-n] <file>       - Display first lines of file\<newline>'' @
     ''tail [-n] <file>       - Display last lines of file\<newline>'' @
     ''wc <file>              - Word, line, character count\<newline>'' @
     ''grep <pattern> <file>  - Search for pattern in file\<newline>'' @
     ''\<newline>'' @
     ''SYSTEM INFO:\<newline>'' @
     ''uname [-a]             - System information\<newline>'' @
     ''which <command>        - Locate command\<newline>'' @
     ''history                - Command history\<newline>'' @
     ''\<newline>'' @
     ''CUSTOM COMMANDS:\<newline>'' @
     ''hello [name]           - Greet someone\<newline>'' @
     ''calc <expression>      - Simple calculator\<newline>'' @
     ''weather [city]         - Get weather info\<newline>'' @
     ''joke                   - Tell a random joke\<newline>'' @
     ''cowsay <message>       - ASCII cow says message\<newline>'' @
     ''fortune                - Random fortune cookie\<newline>'' @
     ''matrix                 - Matrix-style animation\<newline>'' @
     ''ascii <text>           - Convert text to ASCII art\<newline>'' @
     ''color <color>          - Change terminal color theme\<newline>'' @
     ''timer <seconds>        - Start a countdown timer\<newline>'' @
     ''\<newline>'' @
     ''Use Tab for command completion and arrow keys for history navigation.''"

definition handleHelp :: CommandResult where
  "handleHelp = \<lparr>output = helpText, error = None, exitCode = 0\<rparr>"

definition handleUname :: "string list \<Rightarrow> CommandResult" where
  "handleUname args =
     (if ''-a'' \<in> set args then
        \<lparr>output = ''Linux webterminal 5.15.0 #1 SMP Web Terminal Simulator x86_64 GNU/Linux'',
         error = None, exitCode = 0\<rparr>
      else \<lparr>output = ''Linux'', error = None, exitCode = 0\<rparr>)"

definition whichCommands :: "string list" where
  "whichCommands =
     [''ls'', ''cd'', ''pwd'', ''cat'', ''echo'', ''mkdir'', ''touch'', ''whoami'', ''date'',
      ''clear'', ''help'', ''uname'', ''which'', ''file'', ''head'', ''tail'', ''wc'', ''grep'',
      ''hello'', ''calc'', ''weather'', ''joke'', ''cowsay'', ''fortune'', ''matrix'', ''ascii'',
      ''color'', ''timer'']"

definition handleWhich :: "string list \<Rightarrow> CommandResult" where
  "handleWhich args =
     (case args of
        [] \<Rightarrow> \<lparr>output = '''', error = Some ''which: missing argument'', exitCode = 1\<rparr>
      | command # _ \<Rightarrow>
          if command \<in> set whichCommands then
            \<lparr>output = ''/bin/'' @ command, error = None, exitCode = 0\<rparr>
          else
            \<lparr>output = '''', error = Some (''which: no '' @ command @ '' in (/bin:/usr/bin)''),
             exitCode = 1\<rparr>)"

subsection \<open>file\<close>

text \<open>\<open>item.name.split('.')\<close> needs a string.\<close>

definition fileLine :: "string \<Rightarrow> string \<Rightarrow> jsobject \<Rightarrow> failure + string" where
  "fileLine currentDir filePath fileSystem =
     (let item = getItemAtPath fileSystem (resolvePath currentDir filePath)
      in if \<not> isTruthy item then Inr (filePath @ '': cannot open (No such file or directory)'')
         else if get item Type = StringValue ''directory'' then Inr (filePath @ '': directory'')
         else
           (case get item Name of
              StringValue itemName \<Rightarrow>
                (let extension = toLowerCase (last (split_on itemName CHR ''.''));
                     kind = (if extension = ''md'' then ''ASCII text (Markdown)''
                             else if extension = ''sh'' then ''Bourne-Again shell script''
                             else if extension = ''txt'' then ''ASCII text''
                             else ''ASCII text'')
                 in Inr (filePath @ '': '' @ kind))
            | _ \<Rightarrow> Inl TypeError))"

fun fileLoop :: "string list \<Rightarrow> string \<Rightarrow> jsobject \<Rightarrow> failure + string list" where
  "fileLoop [] currentDir fileSystem = Inr []"
| "fileLoop (filePath # rest) currentDir fileSystem =
     (case fileLine currentDir filePath fileSystem of
        Inl e \<Rightarrow> Inl e
      | Inr line \<Rightarrow>
          (case fileLoop rest currentDir fileSystem of
             Inl e \<Rightarrow> Inl e
           | Inr ls \<Rightarrow> Inr (line # ls)))"

definition handleFile :: "string list \<Rightarrow> string \<Rightarrow> jsobject \<Rightarrow> failure + CommandResult" where
  "handleFile args currentDir fileSystem =
     (if length args = 0 then
        Inr \<lparr>output = '''', error = Some ''file: missing file operand'', exitCode = 1\<rparr>
      else
        (case fileLoop args currentDir fileSystem of
           Inl e \<Rightarrow> Inl e
         | Inr results \<Rightarrow>
             Inr \<lparr>output = join results ''\<newline>'', error = None, exitCode = 0\<rparr>))"

subsection \<open>head and tail\<close>

text \<open>
  \<open>const content = item.content || ''\<close> followed by \<open>content.split\<close>, which only a
  string has: the content as a string, or the \<open>TypeError\<close> of the call.
\<close>

definition contentOf :: "jsvalue \<Rightarrow> failure + string" where
  "contentOf item =
     (if \<not> isTruthy (get item Content) then Inr ''''
      else (case get item Content of StringValue s \<Rightarrow> Inr s | _ \<Rightarrow> Inl TypeError))"

text \<open>
  The option parsing that both handlers start with: \<open>args[0] === '-n' && args[1]\<close>
  selects \<open>lines = parseInt(args[1]) || 10\<close>, where \<open>NaN\<close> and \<open>0\<close> are falsy, and
  \<open>fileArgs = args.slice(2)\<close>.
\<close>

definition lineCountOption :: "string list \<Rightarrow> int \<times> string list" where
  "lineCountOption args =
     (if at_index args 0 = Some ''-n'' \<and> truthy (at_index args 1) then
        ((case parseInt (the (at_index args 1)) of
            None \<Rightarrow> 10
          | Some n \<Rightarrow> if n = 0 then 10 else n),
         drop 2 args)
      else (10, args))"

definition handleHead :: "string list \<Rightarrow> string \<Rightarrow> jsobject \<Rightarrow> failure + CommandResult" where
  "handleHead args currentDir fileSystem =
     (let lines = fst (lineCountOption args);
          fileArgs = snd (lineCountOption args)
      in case fileArgs of
           [] \<Rightarrow> Inr \<lparr>output = '''', error = Some ''head: missing file operand'', exitCode = 1\<rparr>
         | filePath # _ \<Rightarrow>
             (let item = getItemAtPath fileSystem (resolvePath currentDir filePath)
              in if \<not> isTruthy item then
                   Inr \<lparr>output = '''',
                        error = Some (''head: '' @ filePath @ '': No such file or directory''),
                        exitCode = 1\<rparr>
                 else if get item Type \<noteq> StringValue ''file'' then
                   Inr \<lparr>output = '''', error = Some (''head: '' @ filePath @ '': Is a directory''),
                        exitCode = 1\<rparr>
                 else
                   (case contentOf item of
                      Inl e \<Rightarrow> Inl e
                    | Inr content \<Rightarrow>
                        (let contentLines = split_on content CHR ''\<newline>''
                         in Inr \<lparr>output = join (slice contentLines 0 lines) ''\<newline>'',
                                 error = None, exitCode = 0\<rparr>))))"

definition handleTail :: "string list \<Rightarrow> string \<Rightarrow> jsobject \<Rightarrow> failure + CommandResult" where
  "handleTail args currentDir fileSystem =
     (let lines = fst (lineCountOption args);
          fileArgs = snd (lineCountOption args)
      in case fileArgs of
           [] \<Rightarrow> Inr \<lparr>output = '''', error = Some ''tail: missing file operand'', exitCode = 1\<rparr>
         | filePath # _ \<Rightarrow>
             (let item = getItemAtPath fileSystem (resolvePath currentDir filePath)
              in if \<not> isTruthy item then
                   Inr \<lparr>output = '''',
                        error = Some (''tail: '' @ filePath @ '': No such file or directory''),
                        exitCode = 1\<rparr>
                 else if get item Type \<noteq> StringValue ''file'' then
                   Inr \<lparr>output = '''', error = Some (''tail: '' @ filePath @ '': Is a directory''),
                        exitCode = 1\<rparr>
                 else
                   (case contentOf item of
                      Inl e \<Rightarrow> Inl e
                    | Inr content \<Rightarrow>
                        (let contentLines = split_on content CHR ''\<newline>''
                         in Inr \<lparr>output = join (sliceFrom contentLines (- lines)) ''\<newline>'',
                                 error = None, exitCode = 0\<rparr>))))"

subsection \<open>wc and grep\<close>

definition handleWc :: "string list \<Rightarrow> string \<Rightarrow> jsobject \<Rightarrow> failure + CommandResult" where
  "handleWc args currentDir fileSystem =
     (case args of
        [] \<Rightarrow> Inr \<lparr>output = '''', error = Some ''wc: missing file operand'', exitCode = 1\<rparr>
      | filePath # _ \<Rightarrow>
          (let item = getItemAtPath fileSystem (resolvePath currentDir filePath)
           in if \<not> isTruthy item then
                Inr \<lparr>output = '''',
                     error = Some (''wc: '' @ filePath @ '': No such file or directory''),
                     exitCode = 1\<rparr>
              else if get item Type \<noteq> StringValue ''file'' then
                Inr \<lparr>output = '''', error = Some (''wc: '' @ filePath @ '': Is a directory''),
                     exitCode = 1\<rparr>
              else
                (case contentOf item of
                   Inl e \<Rightarrow> Inl e
                 | Inr content \<Rightarrow>
                     (let lines = length (split_on content CHR ''\<newline>'');
                          words = length (filter (\<lambda>w. length w > 0) (splitWhiteSpace content));
                          chars = length content
                      in Inr \<lparr>output = padStart (toString lines) 8 @ '' '' @
                                       padStart (toString words) 7 @ '' '' @
                                       padStart (toString chars) 7 @ '' '' @ filePath,
                              error = None, exitCode = 0\<rparr>))))"

definition handleGrep :: "string list \<Rightarrow> string \<Rightarrow> jsobject \<Rightarrow> failure + CommandResult" where
  "handleGrep args currentDir fileSystem =
     (if length args < 2 then
        Inr \<lparr>output = '''', error = Some ''grep: missing pattern or file operand'', exitCode = 1\<rparr>
      else
        (let pattern = args ! 0;
             filePath = args ! 1;
             item = getItemAtPath fileSystem (resolvePath currentDir filePath)
         in if \<not> isTruthy item then
              Inr \<lparr>output = '''',
                   error = Some (''grep: '' @ filePath @ '': No such file or directory''),
                   exitCode = 1\<rparr>
            else if get item Type \<noteq> StringValue ''file'' then
              Inr \<lparr>output = '''', error = Some (''grep: '' @ filePath @ '': Is a directory''),
                   exitCode = 1\<rparr>
            else
              (case contentOf item of
                 Inl e \<Rightarrow> Inl e
               | Inr content \<Rightarrow>
                   (let lines = split_on content CHR ''\<newline>'';
                        matchingLines = filter (\<lambda>line. str_includes line pattern) lines
                    in Inr \<lparr>output = join matchingLines ''\<newline>'', error = None,
                            exitCode = (if length matchingLines > 0 then 0 else 1)\<rparr>))))"

subsection \<open>The dispatch\<close>

text \<open>The \<open>switch\<close> compares the command with each label by strict equality; the labels
  in the order of the source.\<close>

definition caseLabels :: "string list" where
  "caseLabels =
     [''ls'', ''cd'', ''pwd'', ''cat'', ''echo'', ''mkdir'', ''touch'', ''whoami'', ''date'',
      ''clear'', ''help'', ''uname'', ''history'', ''which'', ''file'', ''head'', ''tail'', ''wc'',
      ''grep'', ''hello'', ''calc'', ''weather'', ''joke'', ''cowsay'', ''fortune'', ''matrix'',
      ''ascii'', ''color'', ''timer'']"

text \<open>A call returns its result and the tree after the call, or fails; only \<open>mkdir\<close>
  and \<open>touch\<close> change the tree.\<close>

definition unchanged ::
  "jsobject \<Rightarrow> failure + CommandResult \<Rightarrow> failure + (CommandResult \<times> jsobject)" where
  "unchanged fileSystem r = (case r of Inl e \<Rightarrow> Inl e | Inr x \<Rightarrow> Inr (x, fileSystem))"

definition executeCommand ::
  "Env \<Rightarrow> string \<Rightarrow> string list \<Rightarrow> string \<Rightarrow> jsobject \<Rightarrow> failure + (CommandResult \<times> jsobject)" where
  "executeCommand env command args currentDir fileSystem =
     (if command = ''ls'' then unchanged fileSystem (handleLs env args currentDir fileSystem)
      else if command = ''cd'' then Inr (handleCd args currentDir fileSystem, fileSystem)
      else if command = ''pwd'' then
        Inr (\<lparr>output = currentDir, error = None, exitCode = 0\<rparr>, fileSystem)
      else if command = ''cat'' then unchanged fileSystem (handleCat env args currentDir fileSystem)
      else if command = ''echo'' then
        Inr (\<lparr>output = join args '' '', error = None, exitCode = 0\<rparr>, fileSystem)
      else if command = ''mkdir'' then Inr (handleMkdir args currentDir fileSystem (newDate env))
      else if command = ''touch'' then Inr (handleTouch args currentDir fileSystem (newDate env))
      else if command = ''whoami'' then
        Inr (\<lparr>output = ''user'', error = None, exitCode = 0\<rparr>, fileSystem)
      else if command = ''date'' then
        Inr (\<lparr>output = dateToString env (newDate env), error = None, exitCode = 0\<rparr>, fileSystem)
      else if command = ''clear'' then
        Inr (\<lparr>output = ''__CLEAR__'', error = None, exitCode = 0\<rparr>, fileSystem)
      else if command = ''help'' then Inr (handleHelp, fileSystem)
      else if command = ''uname'' then Inr (handleUname args, fileSystem)
      else if command = ''history'' then
        Inr (\<lparr>output = ''Command history not available in this context'', error = None,
              exitCode = 0\<rparr>, fileSystem)
      else if command = ''which'' then Inr (handleWhich args, fileSystem)
      else if command = ''file'' then unchanged fileSystem (handleFile args currentDir fileSystem)
      else if command = ''head'' then unchanged fileSystem (handleHead args currentDir fileSystem)
      else if command = ''tail'' then unchanged fileSystem (handleTail args currentDir fileSystem)
      else if command = ''wc'' then unchanged fileSystem (handleWc args currentDir fileSystem)
      else if command = ''grep'' then unchanged fileSystem (handleGrep args currentDir fileSystem)
      else if command = ''hello'' then Inr (handleHello env args, fileSystem)
      else if command = ''calc'' then Inr (handleCalc env args, fileSystem)
      else if command = ''weather'' then Inr (handleWeather env args, fileSystem)
      else if command = ''joke'' then Inr (handleJoke env, fileSystem)
      else if command = ''cowsay'' then Inr (handleCowsay env args, fileSystem)
      else if command = ''fortune'' then Inr (handleFortune env, fileSystem)
      else if command = ''matrix'' then Inr (handleMatrix env, fileSystem)
      else if command = ''ascii'' then Inr (handleAscii env args, fileSystem)
      else if command = ''color'' then Inr (handleColor env args, fileSystem)
      else if command = ''timer'' then Inr (handleTimer env args, fileSystem)
      else
        Inr (\<lparr>output = '''', error = Some (''bash: '' @ command @ '': command not found''),
              exitCode = 127\<rparr>, fileSystem))"

section \<open>Notions of the specification\<close>

text \<open>\<open>s.endsWith(p)\<close>.\<close>

definition endsWith :: "string \<Rightarrow> string \<Rightarrow> bool" where
  "endsWith s p = (length p \<le> length s \<and> drop (length s - length p) s = p)"

text \<open>
  A normalized absolute path, in the words of the specification: it starts with a
  slash and, unless it is the root itself, the segments after that slash are neither
  \<open>.\<close> nor \<open>..\<close> nor empty (a segment holds no slash, being a piece of the split).
\<close>

definition isNormalizedAbsolute :: "string \<Rightarrow> bool" where
  "isNormalizedAbsolute p =
     (startsWith p ''/'' \<and>
      (p = ''/'' \<or>
       list_all (\<lambda>seg. seg \<noteq> ''.'' \<and> seg \<noteq> ''..'' \<and> seg \<noteq> '''')
         (tl (split_on p CHR ''/''))))"

text \<open>
  The lookup of the specification: the path is split into its non-empty segments, and
  the walk goes from a node to the entry that the node's \<open>children\<close> mapping has under
  the segment; the node is not found when the mapping has no such entry or the node
  has no \<open>children\<close>. The entries of a mapping are its own properties.
\<close>

fun lookupWalk :: "jsobject \<Rightarrow> string list \<Rightarrow> jsobject option" where
  "lookupWalk node [] = Some node"
| "lookupWalk node (segment # segments) =
     (case ownProperty (properties node) ''children'' of
        Some (Object entries) \<Rightarrow>
          (case ownProperty (properties entries) segment of
             Some (Object child) \<Rightarrow> lookupWalk child segments
           | _ \<Rightarrow> None)
      | _ \<Rightarrow> None)"

definition lookupNode :: "jsobject \<Rightarrow> string \<Rightarrow> jsobject option" where
  "lookupNode root path =
     (if path = ''/'' then Some root
      else lookupWalk root (filterBoolean (split_on path CHR ''/'')))"

definition isDirectoryNode :: "jsobject option \<Rightarrow> bool" where
  "isDirectoryNode found =
     (case found of
        None \<Rightarrow> False
      | Some node \<Rightarrow> ownProperty (properties node) ''type'' = Some (StringValue ''directory''))"


text \<open>\<open>item.children[k]\<close>.\<close>

definition childAt :: "jsvalue \<Rightarrow> string \<Rightarrow> jsvalue" where
  "childAt item k =
     (case get item Children of Object entries \<Rightarrow> getProperty entries k | _ \<Rightarrow> Undefined)"

text \<open>
  Two trees for the examples: the initial tree after \<open>createDirectory\<close> of \<open>/etc/\<close>,
  and the initial tree after \<open>mkdir __proto__\<close> and \<open>mkdir __proto__/__proto__\<close> in
  \<open>/home/user\<close>.
\<close>

definition emptyNameTree :: jsobject where
  "emptyNameTree = snd (createDirectory (createInitialFileSystem 0) ''/etc/'' 1)"

definition prototypeTree :: jsobject where
  "prototypeTree =
     snd (createDirectory
            (snd (createDirectory (createInitialFileSystem 0) ''/home/user/__proto__'' 1))
            ''/home/user/__proto__/__proto__'' 2)"

text \<open>An environment for the examples: the clock reads \<open>0\<close> and every custom handler
  answers with an empty success.\<close>

definition exampleEnv :: Env where
  "exampleEnv =
     \<lparr>newDate = 0,
      dateToString = (\<lambda>t. ''Thu Jan 01 1970 00:00:00 GMT+0000 (Coordinated Universal Time)''),
      toLocaleDateString = (\<lambda>t. ''Jan 01, 12:00 AM''),
      functionToString = (\<lambda>k. ''function '' @ functionName k @ ''() { [native code] }''),
      handleHello = (\<lambda>args. \<lparr>output = '''', error = None, exitCode = 0\<rparr>),
      handleCalc = (\<lambda>args. \<lparr>output = '''', error = None, exitCode = 0\<rparr>),
      handleWeather = (\<lambda>args. \<lparr>output = '''', error = None, exitCode = 0\<rparr>),
      handleJoke = \<lparr>output = '''', error = None, exitCode = 0\<rparr>,
      handleCowsay = (\<lambda>args. \<lparr>output = '''', error = None, exitCode = 0\<rparr>),
      handleFortune = \<lparr>output = '''', error = None, exitCode = 0\<rparr>,
      handleMatrix = \<lparr>output = '''', error = None, exitCode = 0\<rparr>,
      handleAscii = (\<lambda>args. \<lparr>output = '''', error = None, exitCode = 0\<rparr>),
      handleColor = (\<lambda>args. \<lparr>output = '''', error = None, exitCode = 0\<rparr>),
      handleTimer = (\<lambda>args. \<lparr>output = '''', error = None, exitCode = 0\<rparr>)\<rparr>"

section \<open>Facts about the primitives\<close>

lemma split_on_nonempty: "split_on s c \<noteq> []"
  by (induction s) (auto split: list.splits)

lemma split_on_no_sep: "w \<in> set (split_on s c) \<Longrightarrow> c \<notin> set w"
  by (induction s arbitrary: w) (auto split: list.splits if_splits)

lemma split_on_append_sep:
  "c \<notin> set x \<Longrightarrow> split_on (x @ c # s) c = x # split_on s c"
  by (induction x) (auto split: list.splits)

lemma split_on_no_sep_id: "c \<notin> set x \<Longrightarrow> split_on x c = [x]"
  by (induction x) (auto split: list.splits)

lemma split_on_append:
  "split_on (a @ c # b) c = split_on a c @ split_on b c"
proof (induction a)
  case Nil
  then show ?case by simp
next
  case (Cons x a)
  obtain w ws where "split_on a c = w # ws"
    using split_on_nonempty [of a c] by (cases "split_on a c") auto
  with Cons show ?case by simp
qed

lemma split_on_join:
  "segs \<noteq> [] \<Longrightarrow> (\<And>s. s \<in> set segs \<Longrightarrow> c \<notin> set s) \<Longrightarrow>
   split_on (join segs [c]) c = segs"
proof (induction segs "[c]" rule: join.induct)
  case 1
  then show ?case by simp
next
  case (2 x)
  then show ?case by (simp add: split_on_no_sep_id)
next
  case (3 x y ys)
  then show ?case by (simp add: split_on_append_sep)
qed

lemma join_not_Nil: "segs \<noteq> [] \<Longrightarrow> last segs \<noteq> [] \<Longrightarrow> join segs sep \<noteq> []"
  by (induction segs sep rule: join.induct) auto

lemma last_join:
  "segs \<noteq> [] \<Longrightarrow> last segs \<noteq> [] \<Longrightarrow> last (join segs sep) = last (last segs)"
proof (induction segs sep rule: join.induct)
  case (3 x y ys sep)
  then have "join (y # ys) sep \<noteq> []" by (intro join_not_Nil) auto
  with 3 show ?case by simp
qed auto

lemma endsWith_single: "endsWith s [c] \<longleftrightarrow> s \<noteq> [] \<and> last s = c"
  by (cases s rule: rev_cases) (auto simp: endsWith_def)

lemma endsWith_double:
  "endsWith s [c, c'] \<longleftrightarrow> 2 \<le> length s \<and> last (butlast s) = c \<and> last s = c'"
proof (cases s rule: rev_cases)
  case Nil
  then show ?thesis by (simp add: endsWith_def)
next
  case (snoc ys y)
  then show ?thesis by (cases ys rule: rev_cases) (auto simp: endsWith_def butlast_append)
qed

section \<open>The path resolver\<close>

text \<open>Whatever the loop leaves on the stack was on it before or is a part it pushed.\<close>

lemma resolveLoop_all:
  "(\<And>s. s \<in> set stack \<Longrightarrow> P s) \<Longrightarrow>
   (\<And>p. p \<in> set parts \<Longrightarrow> p \<noteq> ''..'' \<Longrightarrow> p \<noteq> ''.'' \<Longrightarrow> p \<noteq> '''' \<Longrightarrow> P p) \<Longrightarrow>
   s \<in> set (resolveLoop stack parts) \<Longrightarrow> P s"
proof (induction stack parts rule: resolveLoop.induct)
  case (1 resolvedParts)
  then show ?case by simp
next
  case (2 resolvedParts part parts)
  show ?case
  proof (cases "part = ''..''")
    case True
    with 2 show ?thesis by (auto dest: in_set_butlastD)
  next
    case False
    with 2 show ?thesis by (cases "part \<noteq> ''.'' \<and> part \<noteq> ''''") auto
  qed
qed

lemma join_fixed:
  assumes "\<And>s. s \<in> set R \<Longrightarrow> s \<noteq> [] \<and> CHR ''/'' \<notin> set s" and "R \<noteq> []"
  shows "resolvePath d (''/'' @ join R ''/'') = ''/'' @ join R ''/''"
proof -
  from assms(2) have l: "last R \<in> set R" by simp
  then have ne: "last R \<noteq> []" and ns: "CHR ''/'' \<notin> set (last R)" using assms(1) by auto
  have j: "join R ''/'' \<noteq> []" using assms(2) ne by (rule join_not_Nil)
  have "last (join R ''/'') = last (last R)" using assms(2) ne by (rule last_join)
  then have "last (join R ''/'') \<noteq> CHR ''/''" using ns ne last_in_set by metis
  with j show ?thesis
    by (simp add: resolvePath_def startsWith_def replaceTrailingSlash_def)
qed

lemma root_fixed: "resolvePath d ''/'' = ''/''"
  by (simp add: resolvePath_def startsWith_def)

lemma join_normalized:
  assumes "\<And>s. s \<in> set R \<Longrightarrow> s \<noteq> ''.'' \<and> s \<noteq> ''..'' \<and> s \<noteq> '''' \<and> CHR ''/'' \<notin> set s"
    and "R \<noteq> []"
  shows "isNormalizedAbsolute (''/'' @ join R ''/'')"
proof -
  have "split_on (join R [CHR ''/'']) CHR ''/'' = R"
    using assms by (intro split_on_join) auto
  with assms show ?thesis
    by (auto simp add: isNormalizedAbsolute_def startsWith_def list_all_iff)
qed

lemma root_normalized: "isNormalizedAbsolute ''/''"
  by (simp add: isNormalizedAbsolute_def startsWith_def)

lemma currentDir_parts:
  "s \<in> set (filterBoolean (split_on d CHR ''/'')) \<Longrightarrow> s \<noteq> [] \<and> CHR ''/'' \<notin> set s"
  by (auto simp: filterBoolean_def dest: split_on_no_sep)

lemma normalized_parts:
  assumes "isNormalizedAbsolute d" "s \<in> set (filterBoolean (split_on d CHR ''/''))"
  shows "s \<noteq> ''.'' \<and> s \<noteq> ''..'' \<and> s \<noteq> '''' \<and> CHR ''/'' \<notin> set s"
proof -
  from assms(1) obtain r where d: "d = CHR ''/'' # r"
    by (cases d) (auto simp: isNormalizedAbsolute_def startsWith_def)
  have base: "s \<noteq> [] \<and> CHR ''/'' \<notin> set s" using assms(2) by (rule currentDir_parts)
  from assms(2) d have "s \<in> set (split_on r CHR ''/'')" and "s \<noteq> []"
    by (auto simp: filterBoolean_def)
  moreover have "r = [] \<or>
    (\<forall>seg \<in> set (split_on r CHR ''/''). seg \<noteq> ''.'' \<and> seg \<noteq> ''..'' \<and> seg \<noteq> '''')"
    using assms(1) d by (auto simp: isNormalizedAbsolute_def list_all_iff)
  ultimately show ?thesis using base by auto
qed

text \<open>
  C6: \<open>resolve("/home/user", "..")\<close> is \<open>/home\<close>, \<open>resolve("/", "..")\<close> is \<open>/\<close> (dropping
  the last segment does nothing at the root), and \<open>resolve("/home/user", "../../etc")\<close>
  is \<open>/etc\<close> (each \<open>..\<close> pops one segment of the stack).
\<close>

theorem resolvePath_examples:
  "resolvePath ''/home/user'' ''..'' = ''/home'' \<and>
   resolvePath ''/'' ''..'' = ''/'' \<and>
   resolvePath ''/home/user'' ''../../etc'' = ''/etc''"
  by (simp add: resolvePath_def startsWith_def filterBoolean_def)

lemma normalized_no_trailing_slash:
  assumes "isNormalizedAbsolute r" and "endsWith r ''/''"
  shows "r = ''/''"
proof (rule ccontr)
  assume n: "r \<noteq> ''/''"
  from assms(1) obtain rest where r: "r = CHR ''/'' # rest"
    by (cases r) (auto simp: isNormalizedAbsolute_def startsWith_def)
  with n have "rest \<noteq> []" by auto
  moreover from assms(2) r have "last r = CHR ''/''" by (simp add: endsWith_single)
  ultimately obtain a where "rest = a @ [CHR ''/'']"
    using r by (cases rest rule: rev_cases) auto
  then have "split_on rest CHR ''/'' = split_on a CHR ''/'' @ [[]]"
    by (simp add: split_on_append)
  then have "[] \<in> set (tl (split_on r CHR ''/''))" by (simp add: r)
  with assms(1) n show False by (auto simp: isNormalizedAbsolute_def list_all_iff)
qed

text \<open>
  C10: for a current directory that is a normalized absolute path and a path token
  that does not start with a slash, the resolved path is a normalized absolute path: it
  starts with a slash, its segments are neither \<open>.\<close> nor \<open>..\<close> nor empty, and it ends
  with a slash only when it is the root.
\<close>

theorem resolvePath_normalized:
  assumes "isNormalizedAbsolute d" and "\<not> startsWith p ''/''"
  shows "isNormalizedAbsolute (resolvePath d p) \<and>
         (endsWith (resolvePath d p) ''/'' \<longrightarrow> resolvePath d p = ''/'')"
proof -
  let ?good = "\<lambda>s. s \<noteq> ''.'' \<and> s \<noteq> ''..'' \<and> s \<noteq> '''' \<and> CHR ''/'' \<notin> set s"
  let ?segs = "filterBoolean (split_on d CHR ''/'')"
  have segs: "\<And>s. s \<in> set ?segs \<Longrightarrow> ?good s"
    using assms(1) by (rule normalized_parts)
  consider (dot) "p = ''.''" | (dotdot) "p = ''..''" | (rel) "p \<noteq> ''.''" "p \<noteq> ''..''"
    by blast
  then have "isNormalizedAbsolute (resolvePath d p)"
  proof cases
    case dot
    with assms show ?thesis by (simp add: resolvePath_def)
  next
    case dotdot
    have g: "\<And>s. s \<in> set (butlast ?segs) \<Longrightarrow> ?good s"
      using segs by (blast dest: in_set_butlastD)
    show ?thesis
    proof (cases "butlast ?segs = []")
      case True
      with dotdot show ?thesis
        by (simp add: resolvePath_def startsWith_def Let_def root_normalized)
    next
      case False
      with g have "isNormalizedAbsolute (''/'' @ join (butlast ?segs) ''/'')"
        by (intro join_normalized)
      with False dotdot show ?thesis
        by (simp add: resolvePath_def startsWith_def Let_def)
    qed
  next
    case rel
    let ?stack = "if d = ''/'' then [] else ?segs"
    let ?R = "resolveLoop ?stack (split_on p CHR ''/'')"
    have g: "\<And>s. s \<in> set ?R \<Longrightarrow> ?good s"
    proof (erule resolveLoop_all [rotated 2])
      fix s assume "s \<in> set ?stack"
      then show "?good s" using segs by (auto split: if_splits)
    next
      fix q assume "q \<in> set (split_on p CHR ''/'')" "q \<noteq> ''..''" "q \<noteq> ''.''" "q \<noteq> ''''"
      then show "?good q" by (auto dest: split_on_no_sep)
    qed
    show ?thesis
    proof (cases "?R = []")
      case True
      with rel assms(2) show ?thesis
        by (simp add: resolvePath_def Let_def root_normalized)
    next
      case False
      with g have "isNormalizedAbsolute (''/'' @ join ?R ''/'')"
        by (intro join_normalized)
      with False rel assms(2) show ?thesis
        by (simp add: resolvePath_def Let_def)
    qed
  qed
then show ?thesis by (blast intro: normalized_no_trailing_slash)
qed

theorem resolvePath_normalized_witness:
  "isNormalizedAbsolute ''/home/user'' \<and> \<not> startsWith ''../docs/./a//b'' ''/'' \<and>
   resolvePath ''/home/user'' ''../docs/./a//b'' = ''/home/docs/a/b'' \<and>
   isNormalizedAbsolute ''/home/docs/a/b''"
proof -
  have d: "isNormalizedAbsolute ''/home/user''"
    by (simp add: isNormalizedAbsolute_def startsWith_def)
  have p: "\<not> startsWith ''../docs/./a//b'' ''/''"
    by (simp add: startsWith_def)
  have r: "resolvePath ''/home/user'' ''../docs/./a//b'' = ''/home/docs/a/b''"
    by (simp add: resolvePath_def startsWith_def filterBoolean_def)
  from resolvePath_normalized [OF d p, THEN conjunct1] d p r show ?thesis by simp
qed

text \<open>
  C3, as the code has it: resolving a resolved path changes nothing, for a token that
  is not an absolute path ending in two slashes (\<open>//\<close> itself apart), and, when the
  token is \<open>.\<close>, for a current directory that is the root or starts with a slash and
  does not end with one. The resolver strips one trailing slash of an absolute token
  and returns the current directory as it is for \<open>.\<close>.
\<close>

theorem resolvePath_idempotent:
  assumes "startsWith p ''/'' \<Longrightarrow> endsWith p ''//'' \<Longrightarrow> p = ''//''"
    and "p = ''.'' \<Longrightarrow> d = ''/'' \<or> (startsWith d ''/'' \<and> \<not> endsWith d ''/'')"
  shows "resolvePath d (resolvePath d p) = resolvePath d p"
proof -
  let ?good = "\<lambda>s. s \<noteq> [] \<and> CHR ''/'' \<notin> set s"
  let ?segs = "filterBoolean (split_on d CHR ''/'')"
  have segs: "\<And>s. s \<in> set ?segs \<Longrightarrow> ?good s"
    by (rule currentDir_parts)
  consider (abs) "startsWith p ''/''" | (dot) "p = ''.''" | (dotdot) "p = ''..''"
    | (rel) "\<not> startsWith p ''/''" "p \<noteq> ''.''" "p \<noteq> ''..''" by blast
  then show ?thesis
  proof cases
    case abs
    then obtain r where p: "p = CHR ''/'' # r" by (cases p) (auto simp: startsWith_def)
    show ?thesis
    proof (cases "r = [] \<or> last r \<noteq> CHR ''/''")
      case True
      with p show ?thesis
        by (auto simp: resolvePath_def startsWith_def replaceTrailingSlash_def)
    next
      case False
      then have r: "r \<noteq> []" "last r = CHR ''/''" by auto
      show ?thesis
      proof (cases "butlast r = []")
        case True
        with r p show ?thesis
          by (auto simp: resolvePath_def startsWith_def replaceTrailingSlash_def)
      next
        case False
        with r p have "p \<noteq> ''//''"
          by (cases r rule: rev_cases) auto
        with assms(1) abs have "\<not> endsWith p ''//''" by blast
        moreover from r p False have "2 \<le> length p" by (cases r) auto
        ultimately have "\<not> (last (butlast p) = CHR ''/'' \<and> last p = CHR ''/'')"
          by (simp add: endsWith_double)
        with r p False have "last (butlast r) \<noteq> CHR ''/''" by simp
        with r p False show ?thesis
          by (auto simp: resolvePath_def startsWith_def replaceTrailingSlash_def)
      qed
    qed
  next
    case dot
    with assms(2) have "d = ''/'' \<or> (startsWith d ''/'' \<and> \<not> endsWith d ''/'')" by blast
    with dot show ?thesis
      by (auto simp: resolvePath_def startsWith_def replaceTrailingSlash_def endsWith_single)
  next
    case dotdot
    have g: "\<And>s. s \<in> set (butlast ?segs) \<Longrightarrow> ?good s"
      using segs by (blast dest: in_set_butlastD)
    show ?thesis
    proof (cases "butlast ?segs = []")
      case True
      with dotdot show ?thesis
        by (simp add: resolvePath_def startsWith_def Let_def)
    next
      case False
      with g have "resolvePath d (''/'' @ join (butlast ?segs) ''/'') =
          ''/'' @ join (butlast ?segs) ''/''"
        by (intro join_fixed)
      moreover have "resolvePath d p = ''/'' @ join (butlast ?segs) ''/''"
        using False dotdot by (simp add: resolvePath_def startsWith_def Let_def)
      ultimately show ?thesis by simp
    qed
  next
    case rel
    let ?stack = "if d = ''/'' then [] else ?segs"
    let ?R = "resolveLoop ?stack (split_on p CHR ''/'')"
    have g: "\<And>s. s \<in> set ?R \<Longrightarrow> ?good s"
    proof (erule resolveLoop_all [rotated 2])
      fix s assume "s \<in> set ?stack"
      then show "?good s" using segs by (auto split: if_splits)
    next
      fix q assume "q \<in> set (split_on p CHR ''/'')" "q \<noteq> ''..''" "q \<noteq> ''.''" "q \<noteq> ''''"
      then show "?good q" by (auto dest: split_on_no_sep)
    qed
    show ?thesis
    proof (cases "?R = []")
      case True
      with rel have "resolvePath d p = ''/''" by (simp add: resolvePath_def Let_def)
      then show ?thesis by (simp add: root_fixed)
    next
      case False
      with g have "resolvePath d (''/'' @ join ?R ''/'') = ''/'' @ join ?R ''/''"
        by (intro join_fixed)
      moreover have "resolvePath d p = ''/'' @ join ?R ''/''"
        using False rel by (simp add: resolvePath_def Let_def)
      ultimately show ?thesis by simp
    qed
  qed
qed

theorem resolvePath_idempotent_witness:
  "resolvePath ''/home/user'' (resolvePath ''/home/user'' ''../etc/'') =
     resolvePath ''/home/user'' ''../etc/'' \<and>
   resolvePath ''/home/user'' ''../etc/'' = ''/home/etc'' \<and>
   resolvePath ''/home/user'' (resolvePath ''/home/user'' ''/etc/'') =
     resolvePath ''/home/user'' ''/etc/'' \<and>
   resolvePath ''/home/user'' (resolvePath ''/home/user'' ''.'') =
     resolvePath ''/home/user'' ''.''"
proof -
  have a: "resolvePath ''/home/user'' (resolvePath ''/home/user'' ''../etc/'') =
     resolvePath ''/home/user'' ''../etc/''"
    by (rule resolvePath_idempotent) (simp_all add: startsWith_def)
  have b: "resolvePath ''/home/user'' (resolvePath ''/home/user'' ''/etc/'') =
     resolvePath ''/home/user'' ''/etc/''"
    by (rule resolvePath_idempotent) (simp_all add: startsWith_def endsWith_def)
  have c: "resolvePath ''/home/user'' (resolvePath ''/home/user'' ''.'') =
     resolvePath ''/home/user'' ''.''"
    by (rule resolvePath_idempotent) (simp_all add: startsWith_def endsWith_def)
  have r: "resolvePath ''/home/user'' ''../etc/'' = ''/home/etc''"
    by (simp add: resolvePath_def startsWith_def filterBoolean_def)
  from a b c r show ?thesis by simp
qed

text \<open>The claim as the specification states it fails for an absolute token that ends in
  two slashes: one slash is stripped by each resolution.\<close>

theorem resolvePath_not_idempotent:
  "resolvePath ''/'' (resolvePath ''/'' ''/a//'') \<noteq> resolvePath ''/'' ''/a//''"
  by (simp add: resolvePath_def startsWith_def replaceTrailingSlash_def)

section \<open>Objects\<close>

lemma ownProperty_Nil: "ownProperty [] k = None"
  by (simp add: ownProperty_def)

lemma ownProperty_Cons:
  "ownProperty (p # ps) k = (if keyOf p = k then Some (valueOf p) else ownProperty ps k)"
  by (simp add: ownProperty_def)

lemma lookupChain_unfold:
  "lookupChain obj k =
     (case ownProperty (properties obj) k of
        Some v \<Rightarrow> Some v
      | None \<Rightarrow> (case prototype obj of None \<Rightarrow> None | Some p \<Rightarrow> lookupChain p k))"
proof (cases obj)
  case (JSObject ps proto)
  then show ?thesis by (cases proto) (auto split: option.splits)
qed

text \<open>A property named \<open>children\<close> holds an object.\<close>

lemma ownProperty_children:
  "ownProperty ps ''children'' = Some v \<Longrightarrow> \<exists>obj. v = Object obj"
proof (induction ps)
  case Nil
  then show ?case by (simp add: ownProperty_Nil)
next
  case (Cons p ps)
  then show ?case by (cases p) (auto simp: ownProperty_Cons split: if_splits)
qed

lemma lookupChain_children:
  "lookupChain obj ''children'' = Some v \<Longrightarrow> \<exists>c. v = Object c"
proof (induction obj "''children''" rule: lookupChain.induct)
  case (1 ps)
  then show ?case by (auto dest: ownProperty_children)
next
  case (2 ps p)
  then show ?case by (auto dest: ownProperty_children split: option.splits)
qed

lemma getProperty_children:
  "getProperty obj ''children'' =
     (case lookupChain obj ''children'' of Some v \<Rightarrow> v | None \<Rightarrow> Undefined)"
  by (simp add: getProperty_def objectPrototypeKeys_def)

lemma truthy_children:
  assumes "isTruthy (get v Children)"
  obtains obj entries where "v = Object obj" and "lookupChain obj ''children'' = Some (Object entries)"
    and "get v Children = Object entries"
proof (cases v)
  case (Object obj)
  with assms obtain w where w: "lookupChain obj ''children'' = Some w"
    by (auto simp: getProperty_children split: option.splits)
  then obtain entries where "w = Object entries" by (auto dest: lookupChain_children)
  with w Object show ?thesis by (intro that [of obj entries]) (simp_all add: getProperty_children)
qed (use assms in auto)

text \<open>Reading what has been written, and what has been changed where it stands.\<close>

lemma ownProperty_assignOwn: "ownProperty (assignOwn k v ps) k = Some (Object v)"
  by (induction ps) (simp_all add: ownProperty_Cons ownProperty_Nil)

lemma getProperty_setProperty:
  assumes "k = ''__proto__'' \<Longrightarrow> lookupChain v k = None"
  shows "getProperty (setProperty obj k v) k = Object v"
proof (cases "k = ''__proto__'' \<and> lookupChain obj k = None")
  case True
  then have k: "k = ''__proto__''" and absent: "lookupChain obj ''__proto__'' = None"
    by blast+
  from absent have "ownProperty (properties obj) ''__proto__'' = None"
    by (simp add: lookupChain_unfold [of obj] split: option.splits)
  with k absent assms show ?thesis
    by (simp add: setProperty_def getProperty_def)
next
  case False
  then have "setProperty obj k v = JSObject (assignOwn k v (properties obj)) (prototype obj)"
    unfolding setProperty_def by (rule if_not_P)
  moreover have "lookupChain (JSObject (assignOwn k v (properties obj)) (prototype obj)) k
      = Some (Object v)"
    by (simp add: lookupChain_unfold [of "JSObject _ _"] ownProperty_assignOwn
        del: lookupChain.simps)
  ultimately show ?thesis by (simp add: getProperty_def del: lookupChain.simps)
qed

lemma ownProperty_modifyOwn_same:
  "ownProperty ps k = Some (Object c) \<Longrightarrow> ownProperty (modifyOwn f k ps) k = Some (Object (f c))"
proof (induction ps)
  case Nil
  then show ?case by (simp add: ownProperty_Nil)
next
  case (Cons p ps)
  then show ?case by (cases p) (auto simp: ownProperty_Cons split: if_splits)
qed

lemma keyOf_modifyOwn: "map keyOf (modifyOwn f k ps) = map keyOf ps"
proof (induction ps)
  case Nil
  then show ?case by simp
next
  case (Cons p ps)
  then show ?case by (cases p) auto
qed

lemma ownProperty_modifyOwn_other:
  "k' \<noteq> k \<Longrightarrow> ownProperty (modifyOwn f k ps) k' = ownProperty ps k'"
proof (induction ps)
  case Nil
  then show ?case by simp
next
  case (Cons p ps)
  then show ?case by (cases p) (auto simp: ownProperty_Cons)
qed

lemma lookupChain_modifyChain_same:
  "lookupChain obj k = Some (Object c) \<Longrightarrow>
   lookupChain (modifyChain f obj k) k = Some (Object (f c))"
proof (induction f obj k rule: modifyChain.induct)
  case (1 f ps k)
  then show ?case by (simp add: ownProperty_modifyOwn_same)
next
  case (2 f ps p k)
  then show ?case
    by (cases "ownProperty ps k") (auto simp: ownProperty_modifyOwn_same)
qed

lemma lookupChain_modifyChain_other:
  "k' \<noteq> k \<Longrightarrow> lookupChain (modifyChain f obj k) k' = lookupChain obj k'"
proof (induction f obj k rule: modifyChain.induct)
  case (1 f ps k)
  then show ?case by (simp add: ownProperty_modifyOwn_other)
next
  case (2 f ps p k)
  then show ?case
    by (cases "ownProperty ps k") (auto simp: ownProperty_modifyOwn_other split: option.splits)
qed

lemma prototype_modifyChain_None:
  "prototype obj = None \<Longrightarrow> prototype (modifyChain f obj k) = None"
  by (cases obj) auto

text \<open>A change under the name \<open>children\<close> leaves every other property as it was.\<close>

lemma lookupChain_modify_children:
  "k \<noteq> ''children'' \<Longrightarrow> lookupChain (modifyProperty f obj ''children'') k = lookupChain obj k"
  by (simp add: modifyProperty_def lookupChain_modifyChain_other split: option.splits)

lemma getProperty_modifyProperty_found:
  assumes "lookupChain obj k = Some (Object c)"
  shows "getProperty (modifyProperty f obj k) k = Object (f c)"
  using assms by (simp add: modifyProperty_def getProperty_def lookupChain_modifyChain_same)

lemma getProperty_modifyProperty_prototype:
  assumes "lookupChain obj ''__proto__'' = None" and "prototype obj = Some c"
    and "lookupChain (f c) ''__proto__'' = None"
  shows "getProperty (modifyProperty f obj ''__proto__'') ''__proto__'' = Object (f c)"
proof -
  from assms(1) have "ownProperty (properties obj) ''__proto__'' = None"
    by (simp add: lookupChain_unfold [of obj] split: option.splits)
  with assms show ?thesis
    by (simp add: modifyProperty_def getProperty_def lookupChain_unfold [of "JSObject _ _"])
qed

text \<open>The object that a read returns is found along the chain, or is the prototype.\<close>

lemma getProperty_Object_cases:
  assumes "getProperty obj k = Object c"
  obtains (found) "lookupChain obj k = Some (Object c)"
  | (proto) "k = ''__proto__''" and "lookupChain obj k = None" and "prototype obj = Some c"
  using assms
  by (auto simp: getProperty_def split: option.splits if_splits)

section \<open>The file system\<close>

subsection \<open>Lookup and update along the same parts\<close>

lemma getItemAtPath_walk:
  "getItemAtPath fs p = walk (Object fs) (filterBoolean (split_on p CHR ''/''))"
  by (simp add: getItemAtPath_def filterBoolean_def)

lemma modifyItemAtPath_walk:
  "modifyItemAtPath f fs p = modifyWalk (filterBoolean (split_on p CHR ''/'')) f fs"
  by (simp add: modifyItemAtPath_def filterBoolean_def)

lemma get_StringValue_Type:
  "get v Type = StringValue s \<Longrightarrow> \<exists>obj. v = Object obj"
  by (cases v) auto

lemma get_Object_Children:
  "get v Children = Object entries \<Longrightarrow> \<exists>obj. v = Object obj"
  by (cases v) auto

lemma walk_Null: "walk Null ps = Null"
  by (cases ps) simp_all

lemma walk_append: "walk v (ps @ qs) = walk (walk v ps) qs"
  by (induction ps arbitrary: v) (auto simp: walk_Null split: jsvalue.splits)

text \<open>A walk that ends in an object has gone through objects.\<close>

lemma walk_Object_start:
  "walk v ps = Object parent \<Longrightarrow> \<exists>obj. v = Object obj"
  by (cases ps) (auto dest: get_Object_Children split: jsvalue.splits if_splits)

lemma walk_Object_step:
  assumes "walk (Object obj) (part # parts) = Object parent"
  obtains entries child where "lookupChain obj ''children'' = Some (Object entries)"
    and "getProperty entries part = Object child"
    and "walk (Object child) parts = Object parent"
proof -
  from assms obtain entries where e: "get (Object obj) Children = Object entries"
    and w: "walk (getProperty entries part) parts = Object parent"
    by (auto split: jsvalue.splits if_splits)
  from w obtain child where c: "getProperty entries part = Object child"
    by (auto dest: walk_Object_start)
  from e have "lookupChain obj ''children'' = Some (Object entries)"
    by (simp add: getProperty_children split: option.splits)
  with c w show thesis by (intro that [of entries child]) simp_all
qed

lemma lookupChain_modifyWalk:
  assumes "\<And>obj. lookupChain (f obj) ''__proto__'' = lookupChain obj ''__proto__''"
  shows "lookupChain (modifyWalk ps f obj) ''__proto__'' = lookupChain obj ''__proto__''"
  by (cases ps) (simp_all add: assms lookupChain_modify_children)

lemma walk_modifyWalk:
  assumes "walk (Object obj) ps = Object parent"
    and "\<And>obj. lookupChain (f obj) ''__proto__'' = lookupChain obj ''__proto__''"
  shows "walk (Object (modifyWalk ps f obj)) ps = Object (f parent)"
  using assms(1)
proof (induction ps arbitrary: obj)
  case Nil
  then show ?case by simp
next
  case (Cons part parts)
  from Cons.prems obtain entries child where
    entries: "lookupChain obj ''children'' = Some (Object entries)"
    and child: "getProperty entries part = Object child"
    and rest: "walk (Object child) parts = Object parent"
    by (rule walk_Object_step)
  let ?g = "modifyWalk parts f"
  let ?entries = "modifyProperty ?g entries part"
  have "getProperty (modifyWalk (part # parts) f obj) ''children'' = Object ?entries"
    using entries by (simp add: getProperty_modifyProperty_found)
  moreover have "getProperty ?entries part = Object (?g child)"
    using child
  proof (cases rule: getProperty_Object_cases)
    case found
    then show ?thesis by (rule getProperty_modifyProperty_found)
  next
    case proto
    from proto(2,3) have "lookupChain child ''__proto__'' = None"
      by (simp add: proto(1) lookupChain_unfold [of entries] split: option.splits)
    then have "lookupChain (?g child) ''__proto__'' = None"
      by (simp add: lookupChain_modifyWalk [of f, OF assms(2)])
    with proto show ?thesis
      by (simp add: getProperty_modifyProperty_prototype)
  qed
  ultimately show ?case
    using Cons.IH [OF rest] by simp
qed

lemma lookupChain_assignChild:
  "k \<noteq> ''children'' \<Longrightarrow> lookupChain (assignChild key item obj) k = lookupChain obj k"
  by (simp add: assignChild_def lookupChain_modify_children)



lemma children_assignChild:
  assumes "isTruthy (get (Object parent) Children)"
  obtains entries where "get (Object parent) Children = Object entries"
    and "get (Object (assignChild key item parent)) Children =
         Object (setProperty entries key item)"
proof -
  from assms obtain obj entries where "Object parent = Object obj"
    and "lookupChain obj ''children'' = Some (Object entries)"
    and "get (Object parent) Children = Object entries"
    by (rule truthy_children)
  then have e: "lookupChain parent ''children'' = Some (Object entries)"
    and g: "get (Object parent) Children = Object entries"
    by simp_all
  from e have "get (Object (assignChild key item parent)) Children =
      Object (setProperty entries key item)"
    by (simp add: assignChild_def getProperty_modifyProperty_found)
  with g show thesis by (rule that)
qed

lemma walk_assignChild:
  assumes "walk (Object fs) ps = Object parent" and "isTruthy (get (Object parent) Children)"
    and "lookupChain item ''__proto__'' = None"
  shows "walk (Object (modifyWalk ps (assignChild k item) fs)) (ps @ [k]) = Object item"
proof -
  have "walk (Object (modifyWalk ps (assignChild k item) fs)) ps =
      Object (assignChild k item parent)"
    using assms(1) by (rule walk_modifyWalk) (simp add: lookupChain_assignChild)
  moreover obtain entries where
    "get (Object (assignChild k item parent)) Children = Object (setProperty entries k item)"
    using assms(2) by (rule children_assignChild)
  moreover have "getProperty (setProperty entries k item) k = Object item" for entries
    using assms(3) by (intro getProperty_setProperty) simp
  ultimately show ?thesis by (simp add: walk_append)
qed

subsection \<open>The split of a path into parent path and leaf name\<close>

lemma lastIndexOf_absent: "c \<notin> set s \<Longrightarrow> lastIndexOf s c = - 1"
  by (induction s) (auto simp: Let_def)

lemma lastIndexOf_last: "c \<notin> set suf \<Longrightarrow> lastIndexOf (pre @ c # suf) c = int (length pre)"
  by (induction pre) (auto simp: Let_def lastIndexOf_absent)

lemma path_without_slash:
  assumes "CHR ''/'' \<notin> set path"
  shows "parentPathOf path = ''/''" and "leafNameOf path = path"
  using assms
  by (simp_all add: parentPathOf_def leafNameOf_def lastIndexOf_absent substring_def
      substringFrom_def)

lemma path_with_slash:
  assumes "CHR ''/'' \<notin> set suf"
  shows "parentPathOf (pre @ CHR ''/'' # suf) = (if pre = [] then ''/'' else pre)"
    and "leafNameOf (pre @ CHR ''/'' # suf) = suf"
  using assms
  by (simp_all add: parentPathOf_def leafNameOf_def lastIndexOf_last substring_def
      substringFrom_def Let_def nat_add_distrib)

lemma parts_of_path:
  "filterBoolean (split_on path CHR ''/'') =
   filterBoolean (split_on (parentPathOf path) CHR ''/'') @
   (if leafNameOf path = [] then [] else [leafNameOf path])"
proof (cases "CHR ''/'' \<in> set path")
  case False
  then show ?thesis
    by (simp add: path_without_slash split_on_no_sep_id filterBoolean_def)
next
  case True
  then obtain pre suf where p: "path = pre @ CHR ''/'' # suf" and s: "CHR ''/'' \<notin> set suf"
    by (auto dest: split_list_last)
  from s have "parentPathOf path = (if pre = [] then ''/'' else pre)" "leafNameOf path = suf"
    unfolding p by (rule path_with_slash)+
  with s show ?thesis
    by (simp add: p split_on_append split_on_no_sep_id filterBoolean_def)
qed



subsection \<open>createFile and createDirectory\<close>

lemma fileLiteral_no_proto: "lookupChain (fileLiteral n c m ow g s t) ''__proto__'' = None"
  by (simp add: fileLiteral_def ownProperty_def)

lemma directoryLiteral_no_proto: "lookupChain (directoryLiteral n ow g t cs) ''__proto__'' = None"
  by (simp add: directoryLiteral_def ownProperty_def)



lemma createFile_succeeds:
  assumes "getItemAtPath fs (parentPathOf path) = Object parent"
    and "get (Object parent) Type = StringValue ''directory''"
    and "isTruthy (get (Object parent) Children)"
  shows "createFile fs path text now =
     (True,
      modifyItemAtPath
        (assignChild (leafNameOf path)
           (fileLiteral (leafNameOf path) text ''-rw-r--r--'' ''user'' ''user'' (length text) now))
        fs (parentPathOf path))"
  using assms by (simp add: createFile_def Let_def)

lemma createDirectory_succeeds:
  assumes "getItemAtPath fs (parentPathOf path) = Object parent"
    and "get (Object parent) Type = StringValue ''directory''"
    and "isTruthy (get (Object parent) Children)"
  shows "createDirectory fs path now =
     (True,
      modifyItemAtPath
        (assignChild (leafNameOf path) (directoryLiteral (leafNameOf path) ''user'' ''user'' now []))
        fs (parentPathOf path))"
  using assms by (simp add: createDirectory_def Let_def)


text \<open>After an assignment under the parent, the lookup of the path finds the new node when
  the leaf name is not empty; with an empty leaf name it finds the parent.\<close>

lemma lookup_after_assign:
  assumes "getItemAtPath fs (parentPathOf path) = Object parent"
    and "isTruthy (get (Object parent) Children)"
    and "lookupChain item ''__proto__'' = None"
  shows "getItemAtPath
           (modifyItemAtPath (assignChild (leafNameOf path) item) fs (parentPathOf path)) path =
         Object (if leafNameOf path = [] then assignChild (leafNameOf path) item parent else item)"
proof -
  let ?pp = "filterBoolean (split_on (parentPathOf path) CHR ''/'')"
  from assms(1) have w: "walk (Object fs) ?pp = Object parent" by (simp add: getItemAtPath_walk)
  show ?thesis
  proof (cases "leafNameOf path = []")
    case True
    then have "filterBoolean (split_on path CHR ''/'') = ?pp"
      using parts_of_path [of path] by simp
    moreover have "walk (Object (modifyWalk ?pp (assignChild (leafNameOf path) item) fs)) ?pp =
        Object (assignChild (leafNameOf path) item parent)"
      using w by (rule walk_modifyWalk) (simp add: lookupChain_assignChild)
    ultimately show ?thesis
      using True by (simp add: getItemAtPath_walk modifyItemAtPath_walk)
  next
    case False
    then have "filterBoolean (split_on path CHR ''/'') = ?pp @ [leafNameOf path]"
      using parts_of_path [of path] by simp
    with False walk_assignChild [OF w assms(2,3)] show ?thesis
      by (simp add: getItemAtPath_walk modifyItemAtPath_walk)
  qed
qed

text \<open>When \<open>createFile\<close> or \<open>createDirectory\<close> succeeds for a path with a leaf name, the
  lookup of the path returns the new node.\<close>

lemma createFile_then_lookup:
  assumes "getItemAtPath fs (parentPathOf path) = Object parent"
    and "get (Object parent) Type = StringValue ''directory''"
    and "isTruthy (get (Object parent) Children)" and "leafNameOf path \<noteq> []"
  shows "getItemAtPath (snd (createFile fs path text now)) path =
         Object (fileLiteral (leafNameOf path) text ''-rw-r--r--'' ''user'' ''user''
                   (length text) now)"
  using lookup_after_assign [OF assms(1,3) fileLiteral_no_proto] assms(4)
  by (simp add: createFile_succeeds [OF assms(1-3)])

lemma createDirectory_then_lookup:
  assumes "getItemAtPath fs (parentPathOf path) = Object parent"
    and "get (Object parent) Type = StringValue ''directory''"
    and "isTruthy (get (Object parent) Children)" and "leafNameOf path \<noteq> []"
  shows "getItemAtPath (snd (createDirectory fs path now)) path =
         Object (directoryLiteral (leafNameOf path) ''user'' ''user'' now [])"
  using lookup_after_assign [OF assms(1,3) directoryLiteral_no_proto] assms(4)
  by (simp add: createDirectory_succeeds [OF assms(1-3)])







text \<open>The definitions that an evaluation of the store unfolds.\<close>

lemmas store_defs = createInitialFileSystem_def directoryLiteral_def fileLiteral_def
  getItemAtPath_def modifyItemAtPath_def assignChild_def filterBoolean_def
  getProperty_def ownProperty_def setProperty_def modifyProperty_def objectPrototypeKeys_def
  parentPathOf_def leafNameOf_def substring_def substringFrom_def Let_def
  lookupNode_def isDirectoryNode_def childAt_def

lemma directory_lookup:
  assumes "get (getItemAtPath fs path) Type = StringValue ''directory''"
    and "isTruthy (get (getItemAtPath fs path) Children)"
  obtains parent where "getItemAtPath fs path = Object parent"
    and "get (Object parent) Type = StringValue ''directory''"
    and "isTruthy (get (Object parent) Children)"
proof -
  from assms(1) obtain parent where "getItemAtPath fs path = Object parent"
    by (auto dest: get_StringValue_Type)
  with assms show thesis by (intro that [of parent]) simp_all
qed





subsection \<open>Two trees on which the claim about the parent fails\<close>

lemma emptyNameTree_createDirectory:
  "createDirectory (createInitialFileSystem 0) ''/etc/'' 1 =
     (True,
      modifyItemAtPath (assignChild '''' (directoryLiteral '''' ''user'' ''user'' 1 []))
        (createInitialFileSystem 0) ''/etc'')"
  by (simp add: createDirectory_def store_defs)

lemma emptyNameTree_eq:
  "emptyNameTree =
     modifyItemAtPath (assignChild '''' (directoryLiteral '''' ''user'' ''user'' 1 []))
       (createInitialFileSystem 0) ''/etc''"
  by (simp only: emptyNameTree_def emptyNameTree_createDirectory snd_conv)

lemma emptyNameTree_createFile:
  "createFile emptyNameTree ''/etc//f'' ''hi'' 2 =
     (True,
      modifyItemAtPath
        (assignChild ''f'' (fileLiteral ''f'' ''hi'' ''-rw-r--r--'' ''user'' ''user'' 2 2))
        emptyNameTree ''/etc/'')"
  by (simp add: createFile_def emptyNameTree_eq store_defs)

lemma emptyNameTree_entries:
  "childAt
     (getItemAtPath
        (modifyItemAtPath
           (assignChild ''f'' (fileLiteral ''f'' ''hi'' ''-rw-r--r--'' ''user'' ''user'' 2 2))
           emptyNameTree ''/etc/'')
        ''/etc'') '''' =
   Object (directoryLiteral '''' ''user'' ''user'' 1 [])"
  "childAt
     (getItemAtPath
        (modifyItemAtPath
           (assignChild ''f'' (fileLiteral ''f'' ''hi'' ''-rw-r--r--'' ''user'' ''user'' 2 2))
           emptyNameTree ''/etc/'')
        ''/etc'') ''f'' =
   Object (fileLiteral ''f'' ''hi'' ''-rw-r--r--'' ''user'' ''user'' 2 2)"
  by (simp_all add: emptyNameTree_eq store_defs)

lemma prototypeTree_eq:
  "prototypeTree =
     modifyItemAtPath
       (assignChild ''__proto__'' (directoryLiteral ''__proto__'' ''user'' ''user'' 2 []))
       (modifyItemAtPath
          (assignChild ''__proto__'' (directoryLiteral ''__proto__'' ''user'' ''user'' 1 []))
          (createInitialFileSystem 0) ''/home/user'')
       ''/home/user/__proto__''"
  by (simp add: prototypeTree_def createDirectory_def store_defs)

lemma prototypeTree_lookupNode: "lookupNode prototypeTree ''/home/user/children'' = None"
  by (simp add: prototypeTree_eq store_defs)

lemma prototypeTree_createFile: "fst (createFile prototypeTree ''/home/user/children/foo'' '''' 3)"
  by (simp add: createFile_def prototypeTree_eq store_defs)

lemma prototypeTree_changed:
  "getItemAtPath (snd (createFile prototypeTree ''/home/user/children/foo'' '''' 3))
     ''/home/user/__proto__/__proto__/foo'' \<noteq>
   getItemAtPath prototypeTree ''/home/user/__proto__/__proto__/foo''"
  by (simp add: createFile_def prototypeTree_eq store_defs)

text \<open>
  The claim as it is stated fails in both halves. With the path \<open>/etc/\<close>, whose leaf
  name is empty, \<open>createDirectory\<close> succeeds and stores the new directory under the
  empty name of \<open>/etc\<close>; \<open>createFile\<close> of \<open>f\<close> under \<open>/etc/\<close> then returns success, and
  the file is an entry of \<open>/etc\<close>, the new directory being as empty as before. And after
  \<open>mkdir __proto__\<close> and \<open>mkdir __proto__/__proto__\<close> in \<open>/home/user\<close>, the tree has no
  node at \<open>/home/user/children\<close>, yet \<open>createFile\<close> of \<open>/home/user/children/foo\<close>
  returns success and changes the tree: the lookup of the source reads \<open>children\<close> and
  \<open>type\<close> through the prototypes that the two assignments under \<open>__proto__\<close> have set.
\<close>

theorem createFile_parent_not_a_node:
  "fst (createDirectory (createInitialFileSystem 0) ''/etc/'' 1) \<and>
   fst (createFile emptyNameTree ''/etc//f'' ''hi'' 2) \<and>
   childAt (getItemAtPath (snd (createFile emptyNameTree ''/etc//f'' ''hi'' 2)) ''/etc'') '''' =
     Object (directoryLiteral '''' ''user'' ''user'' 1 []) \<and>
   childAt (getItemAtPath (snd (createFile emptyNameTree ''/etc//f'' ''hi'' 2)) ''/etc'') ''f'' =
     Object (fileLiteral ''f'' ''hi'' ''-rw-r--r--'' ''user'' ''user'' 2 2) \<and>
   lookupNode prototypeTree ''/home/user/children'' = None \<and>
   fst (createFile prototypeTree ''/home/user/children/foo'' '''' 3) \<and>
   snd (createFile prototypeTree ''/home/user/children/foo'' '''' 3) \<noteq> prototypeTree"
proof (intro conjI)
  show "fst (createDirectory (createInitialFileSystem 0) ''/etc/'' 1)"
    by (simp only: emptyNameTree_createDirectory fst_conv)
  show "fst (createFile emptyNameTree ''/etc//f'' ''hi'' 2)"
    by (simp only: emptyNameTree_createFile fst_conv)
  show "childAt (getItemAtPath (snd (createFile emptyNameTree ''/etc//f'' ''hi'' 2)) ''/etc'') ''''
      = Object (directoryLiteral '''' ''user'' ''user'' 1 [])"
    by (simp only: emptyNameTree_createFile snd_conv emptyNameTree_entries)
  show "childAt (getItemAtPath (snd (createFile emptyNameTree ''/etc//f'' ''hi'' 2)) ''/etc'') ''f''
      = Object (fileLiteral ''f'' ''hi'' ''-rw-r--r--'' ''user'' ''user'' 2 2)"
    by (simp only: emptyNameTree_createFile snd_conv emptyNameTree_entries)
  show "lookupNode prototypeTree ''/home/user/children'' = None"
    by (rule prototypeTree_lookupNode)
  show "fst (createFile prototypeTree ''/home/user/children/foo'' '''' 3)"
    by (rule prototypeTree_createFile)
  show "snd (createFile prototypeTree ''/home/user/children/foo'' '''' 3) \<noteq> prototypeTree"
    using prototypeTree_changed by auto
qed

subsection \<open>The round trip on the initial tree\<close>

lemma initial_home_user:
  "get (getItemAtPath (createInitialFileSystem t) ''/home/user'') Type = StringValue ''directory''"
  "isTruthy (get (getItemAtPath (createInitialFileSystem t) ''/home/user'') Children)"
  by (simp_all add: store_defs)

lemma x_txt_split:
  "parentPathOf ''/home/user/x.txt'' = ''/home/user''" "leafNameOf ''/home/user/x.txt'' = ''x.txt''"
  by (simp_all add: parentPathOf_def leafNameOf_def substring_def substringFrom_def Let_def)

lemma fileLiteral_fields:
  "get (Object (fileLiteral n c m ow g s t)) Type = StringValue ''file''"
  "get (Object (fileLiteral n c m ow g s t)) Content = StringValue c"
  "get (Object (fileLiteral n c m ow g s t)) Size = NumberValue s"
  "get (Object (fileLiteral n c m ow g s t)) Name = StringValue n"
  by (simp_all add: fileLiteral_def getProperty_def ownProperty_def)

text \<open>
  C5: on the initial file system, \<open>createFile(root, "/home/user/x.txt", "hi")\<close> succeeds,
  and the lookup of \<open>/home/user/x.txt\<close> then returns a file node whose content is
  \<open>hi\<close> and whose size is 2, the length of the content.
\<close>

theorem createFile_lookup_roundtrip:
  "fst (createFile (createInitialFileSystem t0) ''/home/user/x.txt'' ''hi'' t1) \<and>
   get (getItemAtPath (snd (createFile (createInitialFileSystem t0) ''/home/user/x.txt'' ''hi'' t1))
          ''/home/user/x.txt'') Type = StringValue ''file'' \<and>
   get (getItemAtPath (snd (createFile (createInitialFileSystem t0) ''/home/user/x.txt'' ''hi'' t1))
          ''/home/user/x.txt'') Content = StringValue ''hi'' \<and>
   get (getItemAtPath (snd (createFile (createInitialFileSystem t0) ''/home/user/x.txt'' ''hi'' t1))
          ''/home/user/x.txt'') Size = NumberValue 2"
proof -
  let ?fs = "createInitialFileSystem t0"
  obtain parent where p: "getItemAtPath ?fs (parentPathOf ''/home/user/x.txt'') = Object parent"
    and t: "get (Object parent) Type = StringValue ''directory''"
    and c: "isTruthy (get (Object parent) Children)"
    unfolding x_txt_split using initial_home_user [of t0] by (rule directory_lookup)
  have l: "leafNameOf ''/home/user/x.txt'' \<noteq> []" by (simp add: x_txt_split)
  have "fst (createFile ?fs ''/home/user/x.txt'' ''hi'' t1)"
    by (simp add: createFile_succeeds [OF p t c])
  moreover have "getItemAtPath (snd (createFile ?fs ''/home/user/x.txt'' ''hi'' t1))
      ''/home/user/x.txt'' =
      Object (fileLiteral ''x.txt'' ''hi'' ''-rw-r--r--'' ''user'' ''user'' 2 t1)"
    using createFile_then_lookup [OF p t c l, of "''hi''" t1]
    by (simp add: x_txt_split numeral_2_eq_2)
  ultimately show ?thesis by (simp only: fileLiteral_fields simp_thms)
qed

theorem createFile_lookup_roundtrip_witness:
  "fst (createFile (createInitialFileSystem 0) ''/home/user/x.txt'' ''hi'' 1) \<and>
   get (getItemAtPath (snd (createFile (createInitialFileSystem 0) ''/home/user/x.txt'' ''hi'' 1))
          ''/home/user/x.txt'') Type = StringValue ''file'' \<and>
   get (getItemAtPath (snd (createFile (createInitialFileSystem 0) ''/home/user/x.txt'' ''hi'' 1))
          ''/home/user/x.txt'') Content = StringValue ''hi'' \<and>
   get (getItemAtPath (snd (createFile (createInitialFileSystem 0) ''/home/user/x.txt'' ''hi'' 1))
          ''/home/user/x.txt'') Size = NumberValue 2"
  using createFile_lookup_roundtrip [of 0 1] .

section \<open>The dispatcher\<close>

subsection \<open>Unknown commands\<close>

text \<open>
  C8: for every command name that is not one of the labels of the dispatch (an exact,
  case-sensitive comparison), \<open>execute\<close> returns exit code 127 with the error
  \<open>bash: <name>: command not found\<close> and leaves the file system as it was.
\<close>

theorem executeCommand_unknown:
  assumes "command \<notin> set caseLabels"
  shows "executeCommand env command args currentDir root =
         Inr (\<lparr>output = '''', error = Some (''bash: '' @ command @ '': command not found''),
               exitCode = 127\<rparr>, root)"
proof -
  from assms have "\<forall>label \<in> set caseLabels. command \<noteq> label" by blast
  then show ?thesis
    unfolding caseLabels_def executeCommand_def by simp
qed

theorem executeCommand_unknown_witness:
  "''frobnicate'' \<notin> set caseLabels \<and> ''LS'' \<notin> set caseLabels \<and>
   executeCommand exampleEnv ''frobnicate'' [] ''/home/user'' (createInitialFileSystem 0) =
     Inr (\<lparr>output = '''', error = Some ''bash: frobnicate: command not found'', exitCode = 127\<rparr>,
          createInitialFileSystem 0) \<and>
   executeCommand exampleEnv ''LS'' [] ''/home/user'' (createInitialFileSystem 0) =
     Inr (\<lparr>output = '''', error = Some ''bash: LS: command not found'', exitCode = 127\<rparr>,
          createInitialFileSystem 0)"
proof -
  have a: "''frobnicate'' \<notin> set caseLabels" and b: "''LS'' \<notin> set caseLabels"
    by (simp_all add: caseLabels_def)
  from executeCommand_unknown [OF a, of exampleEnv "[]" "''/home/user''" "createInitialFileSystem 0"]
       executeCommand_unknown [OF b, of exampleEnv "[]" "''/home/user''" "createInitialFileSystem 0"]
       a b
  show ?thesis by simp
qed

subsection \<open>clear and cd\<close>

text \<open>
  C1, as the code has it: \<open>execute("clear", [], currentDir, root)\<close> returns the output
  \<open>__CLEAR__\<close>, and a \<open>cd\<close> whose resolved target exists and is a directory returns
  exit code 0 and the output \<open>__CD__\<close> followed by the resolved path. The target is the
  first argument, or \<open>/home/user\<close> when there is none or it is empty.
\<close>

theorem clear_and_cd_sentinels:
  "executeCommand env ''clear'' [] currentDir root =
     Inr (\<lparr>output = ''__CLEAR__'', error = None, exitCode = 0\<rparr>, root) \<and>
   (getItemAtPath root (resolvePath currentDir (or_else (at_index args 0) ''/home/user''))
      = item \<and> get item Type = StringValue ''directory''
    \<longrightarrow> executeCommand env ''cd'' args currentDir root =
          Inr (\<lparr>output =
                 ''__CD__'' @ resolvePath currentDir (or_else (at_index args 0) ''/home/user''),
                error = None, exitCode = 0\<rparr>, root))"
proof (intro conjI impI)
  show "executeCommand env ''clear'' [] currentDir root =
     Inr (\<lparr>output = ''__CLEAR__'', error = None, exitCode = 0\<rparr>, root)"
    by (simp add: executeCommand_def)
next
  assume a: "getItemAtPath root (resolvePath currentDir (or_else (at_index args 0) ''/home/user''))
      = item \<and> get item Type = StringValue ''directory''"
  then obtain obj where "item = Object obj" by (auto dest: get_StringValue_Type)
  with a show "executeCommand env ''cd'' args currentDir root =
          Inr (\<lparr>output =
                 ''__CD__'' @ resolvePath currentDir (or_else (at_index args 0) ''/home/user''),
                error = None, exitCode = 0\<rparr>, root)"
    by (simp add: executeCommand_def handleCd_def Let_def)
qed

theorem clear_and_cd_sentinels_witness:
  "executeCommand exampleEnv ''clear'' [] ''/home/user'' (createInitialFileSystem 0) =
     Inr (\<lparr>output = ''__CLEAR__'', error = None, exitCode = 0\<rparr>, createInitialFileSystem 0) \<and>
   executeCommand exampleEnv ''cd'' [''../../etc''] ''/home/user'' (createInitialFileSystem 0) =
     Inr (\<lparr>output = ''__CD__/etc'', error = None, exitCode = 0\<rparr>, createInitialFileSystem 0)"
proof -
  have t: "or_else (at_index [''../../etc''] 0) ''/home/user'' = ''../../etc''"
    by (simp add: or_else_def at_index_def truthy_def)
  have r: "resolvePath ''/home/user'' ''../../etc'' = ''/etc''"
    by (simp add: resolvePath_def startsWith_def filterBoolean_def)
  have g: "get (getItemAtPath (createInitialFileSystem 0) ''/etc'') Type = StringValue ''directory''"
    by (simp add: store_defs)
  from clear_and_cd_sentinels
         [of exampleEnv "''/home/user''" "createInitialFileSystem 0" "[''../../etc'']"
             "getItemAtPath (createInitialFileSystem 0) ''/etc''"]
       t r g
  show ?thesis by simp
qed

text \<open>The sentinel of \<open>clear\<close> is not the string \<open>clear-screen\<close> of the specification.\<close>

theorem clear_output_not_clear_screen:
  "executeCommand exampleEnv ''clear'' [] ''/home/user'' (createInitialFileSystem 0) =
     Inr (\<lparr>output = ''__CLEAR__'', error = None, exitCode = 0\<rparr>, createInitialFileSystem 0) \<and>
   output
     (fst (projr (executeCommand exampleEnv ''clear'' [] ''/home/user'' (createInitialFileSystem 0))))
     \<noteq> ''clear-screen''"
  by (simp add: executeCommand_def)

subsection \<open>grep\<close>



lemma contentOf_fileLiteral: "contentOf (Object (fileLiteral n c m ow g s t)) = Inr c"
  by (cases "c = []") (simp_all add: contentOf_def fileLiteral_fields del: get.simps)



subsection \<open>touch and mkdir\<close>

text \<open>
  C9, as the code has it: for every path whose resolved form has a non-empty leaf name
  and a parent path that looks up to a directory node with its children map,
  \<open>execute("touch", [p], ...)\<close> and \<open>execute("mkdir", [p], ...)\<close> return exit code 0,
  whether or not a node is already there, and the lookup of the resolved path then
  returns the new node: for \<open>touch\<close> a file whose content is the empty string, for
  \<open>mkdir\<close> a directory whose children map is empty. The tree after the call is the tree
  that \<open>createFile\<close> and \<open>createDirectory\<close> return.
\<close>

theorem touch_mkdir_replace:
  assumes "getItemAtPath fs (parentPathOf (resolvePath d p)) = parent"
    and "get parent Type = StringValue ''directory''" and "isTruthy (get parent Children)"
    and "leafNameOf (resolvePath d p) \<noteq> []"
  shows "executeCommand env ''touch'' [p] d fs =
           Inr (\<lparr>output = '''', error = None, exitCode = 0\<rparr>,
                snd (createFile fs (resolvePath d p) '''' (newDate env))) \<and>
         getItemAtPath (snd (createFile fs (resolvePath d p) '''' (newDate env)))
           (resolvePath d p) =
           Object (fileLiteral (leafNameOf (resolvePath d p)) '''' ''-rw-r--r--'' ''user'' ''user''
                     0 (newDate env)) \<and>
         executeCommand env ''mkdir'' [p] d fs =
           Inr (\<lparr>output = '''', error = None, exitCode = 0\<rparr>,
                snd (createDirectory fs (resolvePath d p) (newDate env))) \<and>
         getItemAtPath (snd (createDirectory fs (resolvePath d p) (newDate env)))
           (resolvePath d p) =
           Object (directoryLiteral (leafNameOf (resolvePath d p)) ''user'' ''user''
                     (newDate env) [])"
proof -
  let ?r = "resolvePath d p"
  obtain obj where p: "getItemAtPath fs (parentPathOf ?r) = Object obj"
    and t: "get (Object obj) Type = StringValue ''directory''"
    and c: "isTruthy (get (Object obj) Children)"
    using assms(2,3) unfolding assms(1) [symmetric] by (rule directory_lookup)
  have f: "fst (createFile fs ?r '''' (newDate env))"
    by (simp add: createFile_succeeds [OF p t c])
  have touch: "executeCommand env ''touch'' [p] d fs =
      Inr (\<lparr>output = '''', error = None, exitCode = 0\<rparr>,
           snd (createFile fs ?r '''' (newDate env)))"
    using f by (simp add: executeCommand_def handleTouch_def Let_def)
  have m: "fst (createDirectory fs ?r (newDate env))"
    by (simp add: createDirectory_succeeds [OF p t c])
  have mkdir: "executeCommand env ''mkdir'' [p] d fs =
      Inr (\<lparr>output = '''', error = None, exitCode = 0\<rparr>,
           snd (createDirectory fs ?r (newDate env)))"
    using m by (simp add: executeCommand_def handleMkdir_def Let_def)
  from createFile_then_lookup [OF p t c assms(4), of "''''" "newDate env"]
       createDirectory_then_lookup [OF p t c assms(4), of "newDate env"]
  show ?thesis by (simp add: touch mkdir)
qed

lemma etc_hosts_split:
  "resolvePath ''/etc'' ''hosts'' = ''/etc/hosts''"
  "parentPathOf ''/etc/hosts'' = ''/etc''" "leafNameOf ''/etc/hosts'' = ''hosts''"
  by (simp_all add: resolvePath_def startsWith_def filterBoolean_def parentPathOf_def
      leafNameOf_def substring_def substringFrom_def Let_def)

lemma initial_etc:
  "get (getItemAtPath (createInitialFileSystem t) ''/etc'') Type = StringValue ''directory''"
  "isTruthy (get (getItemAtPath (createInitialFileSystem t) ''/etc'') Children)"
  "get (getItemAtPath (createInitialFileSystem t) ''/etc/hosts'') Content =
     StringValue hosts_content"
  by (simp_all add: store_defs)

theorem touch_mkdir_replace_witness:
  "get (getItemAtPath (createInitialFileSystem 0) ''/etc/hosts'') Content =
     StringValue hosts_content \<and>
   executeCommand exampleEnv ''touch'' [''hosts''] ''/etc'' (createInitialFileSystem 0) =
     Inr (\<lparr>output = '''', error = None, exitCode = 0\<rparr>,
          snd (createFile (createInitialFileSystem 0) ''/etc/hosts'' '''' 0)) \<and>
   getItemAtPath (snd (createFile (createInitialFileSystem 0) ''/etc/hosts'' '''' 0))
     ''/etc/hosts'' =
     Object (fileLiteral ''hosts'' '''' ''-rw-r--r--'' ''user'' ''user'' 0 0) \<and>
   executeCommand exampleEnv ''mkdir'' [''hosts''] ''/etc'' (createInitialFileSystem 0) =
     Inr (\<lparr>output = '''', error = None, exitCode = 0\<rparr>,
          snd (createDirectory (createInitialFileSystem 0) ''/etc/hosts'' 0)) \<and>
   getItemAtPath (snd (createDirectory (createInitialFileSystem 0) ''/etc/hosts'' 0))
     ''/etc/hosts'' =
     Object (directoryLiteral ''hosts'' ''user'' ''user'' 0 [])"
proof -
  have g: "getItemAtPath (createInitialFileSystem 0) (parentPathOf (resolvePath ''/etc'' ''hosts''))
      = getItemAtPath (createInitialFileSystem 0) ''/etc''"
    by (simp only: etc_hosts_split)
  have l: "leafNameOf (resolvePath ''/etc'' ''hosts'') \<noteq> []" by (simp add: etc_hosts_split)
  have n: "newDate exampleEnv = 0" by (simp add: exampleEnv_def)
  from touch_mkdir_replace [OF g initial_etc(1,2) l, of exampleEnv] initial_etc(3) [of 0]
  show ?thesis by (simp add: etc_hosts_split n)
qed

text \<open>The claim without the condition on the leaf name fails where the resolved path is
  the root or ends with a slash: \<open>touch /\<close> and \<open>touch /etc//\<close> return exit code 0,
  the parent paths \<open>/\<close> and \<open>/etc\<close> being directories, and the node at the path is
  the directory it was, with one more child under the empty name.\<close>

lemma touch_root:
  "executeCommand exampleEnv ''touch'' [''/''] ''/'' (createInitialFileSystem 0) =
     Inr (\<lparr>output = '''', error = None, exitCode = 0\<rparr>,
          modifyItemAtPath
            (assignChild '''' (fileLiteral '''' '''' ''-rw-r--r--'' ''user'' ''user'' 0 0))
            (createInitialFileSystem 0) ''/'')"
  by (simp add: executeCommand_def handleTouch_def createFile_def exampleEnv_def
      resolvePath_def startsWith_def store_defs)

lemma touch_etc_slash:
  "executeCommand exampleEnv ''touch'' [''/etc//''] ''/'' (createInitialFileSystem 0) =
     Inr (\<lparr>output = '''', error = None, exitCode = 0\<rparr>,
          modifyItemAtPath
            (assignChild '''' (fileLiteral '''' '''' ''-rw-r--r--'' ''user'' ''user'' 0 0))
            (createInitialFileSystem 0) ''/etc/'')"
  by (simp add: executeCommand_def handleTouch_def createFile_def exampleEnv_def
      resolvePath_def startsWith_def replaceTrailingSlash_def store_defs)

lemma empty_leaf_paths:
  "resolvePath ''/'' ''/'' = ''/''" "parentPathOf ''/'' = ''/''"
  "resolvePath ''/'' ''/etc//'' = ''/etc/''" "parentPathOf ''/etc/'' = ''/etc''"
  by (simp_all add: resolvePath_def startsWith_def replaceTrailingSlash_def store_defs)

lemma touch_root_after:
  "get (getItemAtPath
          (modifyItemAtPath
             (assignChild '''' (fileLiteral '''' '''' ''-rw-r--r--'' ''user'' ''user'' 0 0))
             (createInitialFileSystem 0) ''/'') ''/'') Type = StringValue ''directory''"
  by (simp add: store_defs)

lemma touch_etc_slash_after:
  "get (getItemAtPath
          (modifyItemAtPath
             (assignChild '''' (fileLiteral '''' '''' ''-rw-r--r--'' ''user'' ''user'' 0 0))
             (createInitialFileSystem 0) ''/etc/'') ''/etc/'') Type = StringValue ''directory''"
  "get (getItemAtPath
          (modifyItemAtPath
             (assignChild '''' (fileLiteral '''' '''' ''-rw-r--r--'' ''user'' ''user'' 0 0))
             (createInitialFileSystem 0) ''/etc/'') ''/etc/'') Children =
   Object (JSObject
     [Member ''hosts'' (fileLiteral ''hosts'' hosts_content ''-rw-r--r--'' ''root'' ''root'' 67 0),
      Member '''' (fileLiteral '''' '''' ''-rw-r--r--'' ''user'' ''user'' 0 0)] None)"
  by (simp_all add: store_defs)

lemma initial_root:
  "get (getItemAtPath (createInitialFileSystem t) ''/'') Type = StringValue ''directory''"
  by (simp add: store_defs)

theorem touch_empty_leaf_keeps_directory:
  "get (getItemAtPath (createInitialFileSystem 0) (parentPathOf (resolvePath ''/'' ''/''))) Type
     = StringValue ''directory'' \<and>
   exitCode
     (fst (projr (executeCommand exampleEnv ''touch'' [''/''] ''/'' (createInitialFileSystem 0))))
     = 0 \<and>
   get (getItemAtPath
          (snd (projr
             (executeCommand exampleEnv ''touch'' [''/''] ''/'' (createInitialFileSystem 0))))
          (resolvePath ''/'' ''/'')) Type = StringValue ''directory'' \<and>
   get (getItemAtPath (createInitialFileSystem 0) (parentPathOf (resolvePath ''/'' ''/etc//'')))
     Type = StringValue ''directory'' \<and>
   exitCode
     (fst (projr
        (executeCommand exampleEnv ''touch'' [''/etc//''] ''/'' (createInitialFileSystem 0))))
     = 0 \<and>
   get (getItemAtPath
          (snd (projr
             (executeCommand exampleEnv ''touch'' [''/etc//''] ''/'' (createInitialFileSystem 0))))
          (resolvePath ''/'' ''/etc//'')) Type = StringValue ''directory'' \<and>
   get (getItemAtPath
          (snd (projr
             (executeCommand exampleEnv ''touch'' [''/etc//''] ''/'' (createInitialFileSystem 0))))
          (resolvePath ''/'' ''/etc//'')) Children =
   Object (JSObject
     [Member ''hosts'' (fileLiteral ''hosts'' hosts_content ''-rw-r--r--'' ''root'' ''root'' 67 0),
      Member '''' (fileLiteral '''' '''' ''-rw-r--r--'' ''user'' ''user'' 0 0)] None)"
  by (simp only: touch_root touch_etc_slash empty_leaf_paths touch_root_after
      touch_etc_slash_after initial_root initial_etc sum.sel fst_conv snd_conv
      CommandResult.simps simp_thms)

subsection \<open>head and tail\<close>

lemma slice_first: "0 \<le> n \<Longrightarrow> slice xs 0 n = take (nat n) xs"
  by (auto simp: slice_def Let_def min_def)

lemma sliceFrom_last: "0 < n \<Longrightarrow> sliceFrom xs (- n) = drop (length xs - nat n) xs"
proof -
  assume n: "0 < n"
  have "nat (max (int (length xs) - n) 0) = length xs - nat n" using n by linarith
  moreover have "nat (int (length xs) - max (int (length xs) - n) 0) =
      length xs - (length xs - nat n)"
    using n by linarith
  ultimately show ?thesis using n by (simp add: sliceFrom_def slice_def Let_def)
qed

lemma parseInt_Nil: "parseInt [] = None"
  by (simp add: parseInt_def startsWith_def)

lemma decimal_digit_not_special:
  assumes "digitValue 10 c \<noteq> None"
  shows "\<not> isWhiteSpace c" "c \<noteq> CHR ''-''" "c \<noteq> CHR ''+''" "c \<noteq> CHR ''x''" "c \<noteq> CHR ''X''"
  using assms by (auto simp: digitValue_def isWhiteSpace_def Let_def split: if_splits)

lemma parseInt_decimal:
  assumes "N \<noteq> []" and "\<forall>c \<in> set N. digitValue 10 c \<noteq> None"
  shows "parseInt N = Some (numberOf 10 N)"
proof -
  from assms obtain c cs where N: "N = c # cs" by (cases N) auto
  with assms(2) have c: "digitValue 10 c \<noteq> None" by simp
  have d: "dropWhile isWhiteSpace N = N"
    using decimal_digit_not_special(1) [OF c] by (simp add: N)
  have s: "\<not> startsWith N ''-''" "\<not> startsWith N ''+''"
    using decimal_digit_not_special(2,3) [OF c] by (simp_all add: N startsWith_def)
  have h: "\<not> startsWith N ''0x''" "\<not> startsWith N ''0X''"
  proof -
    show "\<not> startsWith N ''0x''"
    proof (cases cs)
      case Nil
      then show ?thesis by (simp add: N startsWith_def)
    next
      case (Cons e es)
      with assms(2) N have "digitValue 10 e \<noteq> None" by simp
      from decimal_digit_not_special(4) [OF this] Cons show ?thesis
        by (simp add: N startsWith_def)
    qed
    show "\<not> startsWith N ''0X''"
    proof (cases cs)
      case Nil
      then show ?thesis by (simp add: N startsWith_def)
    next
      case (Cons e es)
      with assms(2) N have "digitValue 10 e \<noteq> None" by simp
      from decimal_digit_not_special(5) [OF this] Cons show ?thesis
        by (simp add: N startsWith_def)
    qed
  qed
  have t: "takeWhile (\<lambda>c. digitValue 10 c \<noteq> None) N = N"
    using assms(2) by simp
  from s h have f: "startsWith N ''-'' = False" "startsWith N ''+'' = False"
    "startsWith N ''0x'' = False" "startsWith N ''0X'' = False" by simp_all
  show ?thesis
    unfolding parseInt_def Let_def d f simp_thms if_False t using assms(1) by simp
qed

lemma numberOf_nonneg_aux:
  "0 \<le> acc \<Longrightarrow> 0 \<le> foldl (\<lambda>acc c. acc * int radix + int (the (digitValue radix c))) acc ds"
  by (induction ds arbitrary: acc) auto

lemma numberOf_nonneg: "0 \<le> numberOf radix ds"
  by (simp add: numberOf_def numberOf_nonneg_aux)

text \<open>With \<open>-n N\<close> and a token that \<open>parseInt\<close> reads as a number other than zero, the
  count is that number; with a token it does not read as a number, or with the number
  zero, the count is 10; so it is without the flag.\<close>

lemma lineCountOption_number:
  assumes "parseInt N = Some n"
  shows "lineCountOption (''-n'' # N # rest) = ((if n = 0 then 10 else n), rest)"
proof -
  from assms have "N \<noteq> []" by (auto simp: parseInt_Nil)
  with assms show ?thesis by (simp add: lineCountOption_def at_index_def truthy_def)
qed

lemma lineCountOption_not_a_number:
  assumes "parseInt N = None" and "N \<noteq> []"
  shows "lineCountOption (''-n'' # N # rest) = (10, rest)"
  using assms by (simp add: lineCountOption_def at_index_def truthy_def)

lemma lineCountOption_no_flag:
  assumes "at_index args 0 \<noteq> Some ''-n''"
  shows "lineCountOption args = (10, args)"
  using assms by (simp add: lineCountOption_def)

text \<open>For a count that \<open>parseInt\<close> reads as positive, \<open>head\<close> prints the first and
  \<open>tail\<close> the last so many lines of a file.\<close>

lemma head_positive:
  assumes "parseInt N = Some n" and "0 < n"
    and "getItemAtPath root (resolvePath currentDir file) = item"
    and "get item Type = StringValue ''file''" and "contentOf item = Inr content"
  shows "executeCommand env ''head'' [''-n'', N, file] currentDir root =
         Inr (\<lparr>output = join (take (nat n) (split_on content CHR ''\<newline>'')) ''\<newline>'',
               error = None, exitCode = 0\<rparr>, root)"
proof -
  from assms(4) obtain obj where "item = Object obj" by (auto dest: get_StringValue_Type)
  with assms show ?thesis
    by (simp add: executeCommand_def handleHead_def unchanged_def lineCountOption_number Let_def
        slice_first)
qed

lemma tail_positive:
  assumes "parseInt N = Some n" and "0 < n"
    and "getItemAtPath root (resolvePath currentDir file) = item"
    and "get item Type = StringValue ''file''" and "contentOf item = Inr content"
  shows "executeCommand env ''tail'' [''-n'', N, file] currentDir root =
         Inr (\<lparr>output =
                 join (drop (length (split_on content CHR ''\<newline>'') - nat n)
                         (split_on content CHR ''\<newline>'')) ''\<newline>'',
               error = None, exitCode = 0\<rparr>, root)"
proof -
  from assms(4) obtain obj where "item = Object obj" by (auto dest: get_StringValue_Type)
  with assms show ?thesis
    by (simp add: executeCommand_def handleTail_def unchanged_def lineCountOption_number Let_def
        sliceFrom_last)
qed

text \<open>A token of decimal digits is read as its decimal value: for such a token with a
  value other than zero, \<open>head\<close> prints the first and \<open>tail\<close> the last so many
  lines.\<close>

lemma head_tail_decimal_token:
  assumes "N \<noteq> []" and "\<forall>c \<in> set N. digitValue 10 c \<noteq> None" and "numberOf 10 N \<noteq> 0"
    and "getItemAtPath root (resolvePath currentDir file) = item"
    and "get item Type = StringValue ''file''" and "contentOf item = Inr content"
  shows "executeCommand env ''head'' [''-n'', N, file] currentDir root =
         Inr (\<lparr>output =
                 join (take (nat (numberOf 10 N)) (split_on content CHR ''\<newline>'')) ''\<newline>'',
               error = None, exitCode = 0\<rparr>, root)"
    and "executeCommand env ''tail'' [''-n'', N, file] currentDir root =
         Inr (\<lparr>output =
                 join (drop (length (split_on content CHR ''\<newline>'') - nat (numberOf 10 N))
                         (split_on content CHR ''\<newline>'')) ''\<newline>'',
               error = None, exitCode = 0\<rparr>, root)"
proof -
  have p: "parseInt N = Some (numberOf 10 N)" using assms(1,2) by (rule parseInt_decimal)
  have n: "0 < numberOf 10 N" using numberOf_nonneg [of 10 N] assms(3) by simp
  show "executeCommand env ''head'' [''-n'', N, file] currentDir root =
         Inr (\<lparr>output =
                 join (take (nat (numberOf 10 N)) (split_on content CHR ''\<newline>'')) ''\<newline>'',
               error = None, exitCode = 0\<rparr>, root)"
    using p n assms(4,5,6) by (rule head_positive)
  show "executeCommand env ''tail'' [''-n'', N, file] currentDir root =
         Inr (\<lparr>output =
                 join (drop (length (split_on content CHR ''\<newline>'') - nat (numberOf 10 N))
                         (split_on content CHR ''\<newline>'')) ''\<newline>'',
               error = None, exitCode = 0\<rparr>, root)"
    using p n assms(4,5,6) by (rule tail_positive)
qed

lemma head_tail_default:
  assumes "parseInt N = None" and "N \<noteq> []"
    and "getItemAtPath root (resolvePath currentDir file) = item"
    and "get item Type = StringValue ''file''" and "contentOf item = Inr content"
  shows "executeCommand env ''head'' [''-n'', N, file] currentDir root =
         Inr (\<lparr>output = join (take 10 (split_on content CHR ''\<newline>'')) ''\<newline>'',
               error = None, exitCode = 0\<rparr>, root)"
    and "executeCommand env ''tail'' [''-n'', N, file] currentDir root =
         Inr (\<lparr>output =
                 join (drop (length (split_on content CHR ''\<newline>'') - 10)
                         (split_on content CHR ''\<newline>'')) ''\<newline>'',
               error = None, exitCode = 0\<rparr>, root)"
proof -
  from assms(4) obtain obj where o: "item = Object obj" by (auto dest: get_StringValue_Type)
  from assms o slice_first [of 10 "split_on content CHR ''\<newline>''"]
  show "executeCommand env ''head'' [''-n'', N, file] currentDir root =
         Inr (\<lparr>output = join (take 10 (split_on content CHR ''\<newline>'')) ''\<newline>'',
               error = None, exitCode = 0\<rparr>, root)"
    by (simp add: executeCommand_def handleHead_def unchanged_def lineCountOption_not_a_number
        Let_def)
  from assms o sliceFrom_last [of 10 "split_on content CHR ''\<newline>''"]
  show "executeCommand env ''tail'' [''-n'', N, file] currentDir root =
         Inr (\<lparr>output =
                 join (drop (length (split_on content CHR ''\<newline>'') - 10)
                         (split_on content CHR ''\<newline>'')) ''\<newline>'',
               error = None, exitCode = 0\<rparr>, root)"
    by (simp add: executeCommand_def handleTail_def unchanged_def lineCountOption_not_a_number
        Let_def)
qed

text \<open>
  C2 at the count zero: \<open>project.md\<close> has eleven lines; \<open>head -n 0\<close> prints its first
  ten lines and \<open>tail -n 0\<close> its last ten, where the first and the last zero lines are
  the empty output. \<open>parseInt("0") || 10\<close> is 10.
\<close>

theorem head_tail_zero_count:
  "length (split_on project_content CHR ''\<newline>'') = 11 \<and>
   parseInt ''0'' = Some 0 \<and>
   lineCountOption [''-n'', ''0'', ''project.md''] = (10, [''project.md'']) \<and>
   executeCommand exampleEnv ''head'' [''-n'', ''0'', ''project.md''] ''/home/user/documents''
     (createInitialFileSystem 0) =
   Inr (\<lparr>output =
       ''# My Project\<newline>\<newline>This is a markdown file with project documentation.\<newline>\<newline>## Features\<newline>- Terminal simulation\<newline>- File system operations\<newline>- Command history\<newline>\<newline>## Usage'',
     error = None, exitCode = 0\<rparr>, createInitialFileSystem 0) \<and>
   executeCommand exampleEnv ''tail'' [''-n'', ''0'', ''project.md''] ''/home/user/documents''
     (createInitialFileSystem 0) =
   Inr (\<lparr>output =
       ''\<newline>This is a markdown file with project documentation.\<newline>\<newline>## Features\<newline>- Terminal simulation\<newline>- File system operations\<newline>- Command history\<newline>\<newline>## Usage\<newline>Use standard Linux commands to navigate and interact with the file system.'',
     error = None, exitCode = 0\<rparr>, createInitialFileSystem 0)"
proof -
  let ?item = "Object (fileLiteral ''project.md'' project_content ''-rw-r--r--'' ''user'' ''user''
                 203 0)"
  have g: "getItemAtPath (createInitialFileSystem 0)
             (resolvePath ''/home/user/documents'' ''project.md'') = ?item"
    by (simp add: resolvePath_def startsWith_def store_defs)
  have ty: "get ?item Type = StringValue ''file''" by (rule fileLiteral_fields)
  have p: "parseInt ''0'' = Some 0"
    by (simp add: parseInt_def startsWith_def isWhiteSpace_def digitValue_def numberOf_def)
  have l: "lineCountOption [''-n'', ''0'', ''project.md''] = (10, [''project.md''])"
    by (simp add: lineCountOption_number [OF p])
  have c: "contentOf ?item = Inr project_content" by (rule contentOf_fileLiteral)
  have s: "split_on project_content CHR ''\<newline>'' =
      [''# My Project'', '''', ''This is a markdown file with project documentation.'', '''',
       ''## Features'', ''- Terminal simulation'', ''- File system operations'',
       ''- Command history'', '''', ''## Usage'',
       ''Use standard Linux commands to navigate and interact with the file system.'']"
    by (simp add: project_content_def)
  have h: "executeCommand exampleEnv ''head'' [''-n'', ''0'', ''project.md'']
             ''/home/user/documents'' (createInitialFileSystem 0) =
           Inr (\<lparr>output = join (slice (split_on project_content CHR ''\<newline>'') 0 10) ''\<newline>'',
                 error = None, exitCode = 0\<rparr>, createInitialFileSystem 0)"
    using g ty c
    by (simp add: executeCommand_def handleHead_def unchanged_def l Let_def del: get.simps)
  have t: "executeCommand exampleEnv ''tail'' [''-n'', ''0'', ''project.md'']
             ''/home/user/documents'' (createInitialFileSystem 0) =
           Inr (\<lparr>output = join (sliceFrom (split_on project_content CHR ''\<newline>'') (- 10)) ''\<newline>'',
                 error = None, exitCode = 0\<rparr>, createInitialFileSystem 0)"
    using g ty c
    by (simp add: executeCommand_def handleTail_def unchanged_def l Let_def del: get.simps)
  show ?thesis
    unfolding h t by (simp add: p l s slice_first sliceFrom_last)
qed

end
